theory Spec2Isabelle
  imports Complex_Main "HOL-Library.Word" "HOL-Library.Sublist"
begin

section \<open>JavaScript values\<close>

text \<open>
  The service \<^verbatim>\<open>src/services/deepseekService.js\<close> is JavaScript.  A JavaScript
  string is a sequence of 16-bit code units (UTF-16), so the length and the trimming of a
  string are those of the source.  ASCII text is written through \<open>js\<close>; text outside
  ASCII is written as its code units.
\<close>

type_synonym jsstring = "16 word list"

definition js :: "string \<Rightarrow> jsstring" where
  "js s = map of_char s"

text \<open>
  A number is an IEEE double: a finite value (a rational; zero is positive zero), negative
  zero, an infinity or NaN.  Only the constants of the request and the truthiness of a
  parsed number matter below.
\<close>

datatype jsnumber = Finite rat | NegZero | PosInfinity | NegInfinity | NaN

text \<open>
  A value is \<^verbatim>\<open>undefined\<close>, \<^verbatim>\<open>null\<close>, a boolean, a number, a string, an
  array, or a plain object given by its own properties in order (a key is looked up with
  \<open>map_of\<close>; the objects \<^verbatim>\<open>JSON.parse\<close> builds carry each key once).
\<close>

datatype jsval =
    JUndefined
  | JNull
  | JBool bool
  | JNum jsnumber
  | JStr jsstring
  | JArr "jsval list"
  | JObj "(jsstring \<times> jsval) list"

text \<open>
  What the program throws and catches: \<^verbatim>\<open>new Error(message)\<close>, the engine's
  \<^verbatim>\<open>TypeError\<close> for a property read on \<^verbatim>\<open>undefined\<close> or \<^verbatim>\<open>null\<close>,
  and the rejection of the HTTP client, which carries a message and a \<^verbatim>\<open>response\<close>
  (\<^verbatim>\<open>undefined\<close> when no response arrived: timeout, network error).
\<close>

datatype thrown =
    Error jsstring
  | TypeError jsstring
  | AxiosError jsstring jsval

fun message_of :: "thrown \<Rightarrow> jsstring" where
  "message_of (Error m) = m"
| "message_of (TypeError m) = m"
| "message_of (AxiosError m r) = m"

fun response_of :: "thrown \<Rightarrow> jsval" where
  "response_of (Error m) = JUndefined"
| "response_of (TypeError m) = JUndefined"
| "response_of (AxiosError m r) = r"

text \<open>
  The class of a thrown value: what \<^verbatim>\<open>instanceof\<close>, \<^verbatim>\<open>constructor\<close> and
  \<^verbatim>\<open>name\<close> tell of it.  An \<^verbatim>\<open>Error\<close> has no property of its own but its
  message (and its stack).
\<close>

datatype error_class = ErrorClass | TypeErrorClass | ClientErrorClass

fun class_of :: "thrown \<Rightarrow> error_class" where
  "class_of (Error m) = ErrorClass"
| "class_of (TypeError m) = TypeErrorClass"
| "class_of (AxiosError m r) = ClientErrorClass"

text \<open>Truthiness, as \<^verbatim>\<open>||\<close>, \<^verbatim>\<open>&&\<close> and \<^verbatim>\<open>if\<close> test it.\<close>

fun truthy :: "jsval \<Rightarrow> bool" where
  "truthy JUndefined = False"
| "truthy JNull = False"
| "truthy (JBool b) = b"
| "truthy (JNum n) = (n \<noteq> Finite 0 \<and> n \<noteq> NegZero \<and> n \<noteq> NaN)"
| "truthy (JStr s) = (s \<noteq> [])"
| "truthy (JArr xs) = True"
| "truthy (JObj ps) = True"

fun nullish :: "jsval \<Rightarrow> bool" where
  "nullish JUndefined = True"
| "nullish JNull = True"
| "nullish v = False"

fun isArray :: "jsval \<Rightarrow> bool" where
  "isArray (JArr xs) = True"
| "isArray v = False"

text \<open>
  Reading a named property of a value that is neither \<^verbatim>\<open>undefined\<close> nor
  \<^verbatim>\<open>null\<close>.  The names read through \<open>field\<close> in this program (choices, message,
  content, usage, model, suggestions, text, type, status, suggestion_text,
  suggestion_type) are not properties of the built-in prototypes, so a string, a number,
  a boolean and an array answer \<^verbatim>\<open>undefined\<close>.  The values are data, as
  \<^verbatim>\<open>JSON.parse\<close> and the body parser of the routes build them: no property
  holds a function.
\<close>

fun field :: "jsval \<Rightarrow> jsstring \<Rightarrow> jsval" where
  "field (JObj ps) k = (case map_of ps k of Some v \<Rightarrow> v | None \<Rightarrow> JUndefined)"
| "field v k = JUndefined"

text \<open>The message of the engine's TypeError (the wording of V8, the engine of Node.js).\<close>

definition cannot_read :: "jsval \<Rightarrow> jsstring \<Rightarrow> jsstring" where
  "cannot_read v k =
     js ''Cannot read properties of '' @ (if v = JNull then js ''null'' else js ''undefined'')
       @ js '' (reading '' @ [0x27] @ k @ [0x27] @ js '')''"

text \<open>\<^verbatim>\<open>v.k\<close>: throws on \<^verbatim>\<open>undefined\<close> and \<^verbatim>\<open>null\<close>.\<close>

definition get :: "jsval \<Rightarrow> jsstring \<Rightarrow> thrown + jsval" where
  "get v k = (if nullish v then Inl (TypeError (cannot_read v k)) else Inr (field v k))"

text \<open>\<^verbatim>\<open>v[0]\<close>: the first element of an array, the first code unit of a string.\<close>

fun get0 :: "jsval \<Rightarrow> thrown + jsval" where
  "get0 JUndefined = Inl (TypeError (cannot_read JUndefined (js ''0'')))"
| "get0 JNull = Inl (TypeError (cannot_read JNull (js ''0'')))"
| "get0 (JArr xs) = Inr (case xs of [] \<Rightarrow> JUndefined | x # _ \<Rightarrow> x)"
| "get0 (JStr s) = Inr (case s of [] \<Rightarrow> JUndefined | c # _ \<Rightarrow> JStr [c])"
| "get0 (JObj ps) = Inr (field (JObj ps) (js ''0''))"
| "get0 v = Inr JUndefined"

text \<open>\<^verbatim>\<open>v?.k\<close>\<close>

definition opt_chain :: "jsval \<Rightarrow> jsstring \<Rightarrow> jsval" where
  "opt_chain v k = (if nullish v then JUndefined else field v k)"

text \<open>\<^verbatim>\<open>a || b\<close> on values already computed.\<close>

definition or_else :: "jsval \<Rightarrow> jsval \<Rightarrow> jsval" where
  "or_else a b = (if truthy a then a else b)"

text \<open>A default parameter value applies when the argument is \<^verbatim>\<open>undefined\<close>.\<close>

definition default_param :: "jsval \<Rightarrow> jsval \<Rightarrow> jsval" where
  "default_param v d = (if v = JUndefined then d else v)"

text \<open>\<^verbatim>\<open>v.length\<close>: arrays and strings have their length, an object its own property.\<close>

fun length_of :: "jsval \<Rightarrow> thrown + jsval" where
  "length_of JUndefined = Inl (TypeError (cannot_read JUndefined (js ''length'')))"
| "length_of JNull = Inl (TypeError (cannot_read JNull (js ''length'')))"
| "length_of (JArr xs) = Inr (JNum (Finite (of_nat (length xs))))"
| "length_of (JStr s) = Inr (JNum (Finite (of_nat (length s))))"
| "length_of v = Inr (field v (js ''length''))"

subsection \<open>Strings\<close>

fun join :: "jsstring \<Rightarrow> jsstring list \<Rightarrow> jsstring" where
  "join sep [] = []"
| "join sep [x] = x"
| "join sep (x # y # ys) = x @ sep @ join sep (y # ys)"

definition join_lines :: "jsstring list \<Rightarrow> jsstring" where
  "join_lines ls = join [0xA] ls"

text \<open>
  \<^verbatim>\<open>String.prototype.trim\<close> removes the WhiteSpace and LineTerminator code points
  of ECMAScript from both ends.
\<close>

definition is_whitespace :: "16 word \<Rightarrow> bool" where
  "is_whitespace c \<longleftrightarrow>
     c \<in> {0x9, 0xA, 0xB, 0xC, 0xD, 0x20, 0xA0, 0x1680, 0x2000, 0x2001, 0x2002, 0x2003,
          0x2004, 0x2005, 0x2006, 0x2007, 0x2008, 0x2009, 0x200A, 0x2028, 0x2029, 0x202F,
          0x205F, 0x3000, 0xFEFF}"

definition trim :: "jsstring \<Rightarrow> jsstring" where
  "trim s = rev (dropWhile is_whitespace (rev (dropWhile is_whitespace s)))"

text \<open>The decimal digits of a natural number, as a template literal prints an index.\<close>

fun decimal :: "nat \<Rightarrow> jsstring" where
  "decimal n = (if n < 10 then [of_nat (48 + n)] else decimal (n div 10) @ [of_nat (48 + n mod 10)])"

declare decimal.simps [simp del]

subsection \<open>Built-ins of the language and conversions\<close>

text \<open>
  Three built-ins are parameters of the model: \<^verbatim>\<open>JSON.parse\<close> on a text
  (\<open>None\<close> where it throws its SyntaxError), the printing of a number
  (Number::toString) and the reading of a number from a string (StringToNumber).
\<close>

record builtins =
  JSON_parse :: "jsstring \<Rightarrow> jsval option"
  Number_toString :: "jsnumber \<Rightarrow> jsstring"
  StringToNumber :: "jsstring \<Rightarrow> jsnumber"

text \<open>
  ToString, as a template literal \<^verbatim>\<open>${v}\<close> and \<^verbatim>\<open>String(v)\<close> apply it.  An
  array prints its elements joined by commas, \<^verbatim>\<open>undefined\<close> and \<^verbatim>\<open>null\<close>
  elements as the empty string.  An object is converted by its \<^verbatim>\<open>toString\<close>
  method: the inherited one answers \<^verbatim>\<open>[object Object]\<close>; an own property of
  that name holds data, not a function, and then no method returns a primitive (the
  inherited \<^verbatim>\<open>valueOf\<close> returns the object) and the conversion throws.
\<close>

fun ToString :: "builtins \<Rightarrow> jsval \<Rightarrow> thrown + jsstring"
  and join_elements :: "builtins \<Rightarrow> jsval list \<Rightarrow> thrown + jsstring" where
  "ToString B JUndefined = Inr (js ''undefined'')"
| "ToString B JNull = Inr (js ''null'')"
| "ToString B (JBool b) = Inr (if b then js ''true'' else js ''false'')"
| "ToString B (JNum n) = Inr (Number_toString B n)"
| "ToString B (JStr s) = Inr s"
| "ToString B (JArr xs) = join_elements B xs"
| "ToString B (JObj ps) =
     (if map_of ps (js ''toString'') = None then Inr (js ''[object Object]'')
      else Inl (TypeError (js ''Cannot convert object to primitive value'')))"
| "join_elements B [] = Inr []"
| "join_elements B (x # xs) =
     (case (if nullish x then Inr [] else ToString B x) of Inl e \<Rightarrow> Inl e
      | Inr s \<Rightarrow>
          (if xs = [] then Inr s
           else (case join_elements B xs of Inl e \<Rightarrow> Inl e
                 | Inr r \<Rightarrow> Inr (s @ js '','' @ r))))"

text \<open>
  \<^verbatim>\<open>v > 0\<close>: the value is converted to a number (an object through its
  \<^verbatim>\<open>valueOf\<close> and \<^verbatim>\<open>toString\<close>, as above; \<^verbatim>\<open>[object Object]\<close> reads
  as NaN) and compared.
\<close>

fun positive :: "jsnumber \<Rightarrow> bool" where
  "positive (Finite r) = (0 < r)"
| "positive PosInfinity = True"
| "positive n = False"

fun greater_zero :: "builtins \<Rightarrow> jsval \<Rightarrow> thrown + bool" where
  "greater_zero B JUndefined = Inr False"
| "greater_zero B JNull = Inr False"
| "greater_zero B (JBool b) = Inr b"
| "greater_zero B (JNum n) = Inr (positive n)"
| "greater_zero B (JStr s) = Inr (positive (StringToNumber B s))"
| "greater_zero B (JArr xs) =
     (case ToString B (JArr xs) of Inl e \<Rightarrow> Inl e
      | Inr s \<Rightarrow> Inr (positive (StringToNumber B s)))"
| "greater_zero B (JObj ps) =
     (if map_of ps (js ''toString'') = None then Inr False
      else Inl (TypeError (js ''Cannot convert object to primitive value'')))"

section \<open>The prompt templates\<close>

text \<open>
  The three methods return constant template literals; each is given line by line, the
  lines joined by the newline of the literal.
\<close>

definition getGreenPersonalityPromptV2 :: jsstring where
  "getGreenPersonalityPromptV2 = join_lines
    [[0x23, 0x23, 0x20, 0x4EBA, 0x683C, 0x8BBE, 0x5B9A],
     [0x4F60, 0x662F, 0x4E00, 0x4E2A, 0x6781, 0x5EA6, 0x677E, 0x5F1B, 0x3001, 0x6E29, 0x541E,
     0x3001, 0x4F46, 0x6709, 0x70B9, 0x53EF, 0x7231, 0x7684, 0x6446, 0x70C2, 0x642D, 0x5B50,
     0x4EBA, 0x683C, 0x3002],
     [0x4F60, 0x5BF9, 0x4EFB, 0x4F55, 0x7126, 0x8651, 0x90FD, 0x4E0D, 0x611F, 0x5192, 0xFF0C,
     0x4FE1, 0x5949, 0x201C, 0x80FD, 0x4E0D, 0x6025, 0x5C31, 0x4E0D, 0x6025, 0x201D, 0x7684,
     0x751F, 0x6D3B, 0x65B9, 0x5F0F, 0x3002],
     [0x4F60, 0x8BF4, 0x8BDD, 0x6162, 0x3001, 0x6709, 0x70B9, 0x61D2, 0x6563, 0x3001, 0x5E38,
     0x5E38, 0x6253, 0x54C8, 0x6B20, 0x3001, 0x62B1, 0x7740, 0x6795, 0x5934, 0x6216, 0x76D6,
     0x7740, 0x6BEF, 0x5B50, 0x3002],
     [0x4F60, 0x4E0D, 0x64C5, 0x957F, 0x9F13, 0x52B1, 0xFF0C, 0x4F46, 0x64C5, 0x957F, 0x966A,
     0x4F34, 0x3002],
     [0x5F53, 0x522B, 0x4EBA, 0x7126, 0x8651, 0x65F6, 0xFF0C, 0x4F60, 0x7528, 0x8F7B, 0x67D4,
     0x7684, 0x65B9, 0x5F0F, 0x8BA9, 0x4ED6, 0x653E, 0x677E, 0xFF1B],
     [0x5F53, 0x522B, 0x4EBA, 0x60F3, 0x52A8, 0x624B, 0x65F6, 0xFF0C, 0x4F60, 0x4F1A, 0x4EE5,
     0x201C, 0x597D, 0x5427, 0x90A3, 0x5C31, 0x4E00, 0x70B9, 0x70B9, 0x201D, 0x7684, 0x8BED,
     0x6C14, 0x8F7B, 0x8F7B, 0x8DDF, 0x7740, 0x3002],
     [0x6BCF, 0x6B21, 0x7ED9, 0x51FA, 0x35, 0x4E2A, 0x56DE, 0x7B54, 0x3002],
     [0x23, 0x23, 0x23, 0x20, 0x6280, 0x80FD, 0x20, 0x31, 0x3A, 0x20, 0x5E94, 0x5BF9, 0x7528,
     0x6237, 0x8F93, 0x5165],
     [0x31, 0x2E, 0x20, 0x63A5, 0x6536, 0x7528, 0x6237, 0x8F93, 0x5165, 0x7684, 0x5185,
     0x5BB9, 0x3002],
     [0x32, 0x2E, 0x20, 0x4E0D, 0x8981, 0x91CD, 0x590D, 0x5386, 0x53F2, 0x56DE, 0x590D,
     0x8FC7, 0x7684, 0x5185, 0x5BB9],
     [0x33, 0x2E, 0x20, 0x6309, 0x7167, 0x4EE5, 0x4E0B, 0x56FA, 0x5B9A, 0x6846, 0x67B6,
     0x8FDB, 0x884C, 0x56DE, 0x590D, 0xFF1A, 0x6BCF, 0x6761, 0x8F93, 0x51FA, 0x9075, 0x5FAA,
     0x4EE5, 0x4E0B, 0x7ED3, 0x6784, 0xFF1A],
     [0x31, 0x2E, 0x20, 0x72B6, 0x6001, 0x63CF, 0x5199, 0xFF08, 0x31, 0x53E5, 0xFF09],
     [0x7528, 0x62EC, 0x53F7, 0x20, 0x28, 0x29, 0x20, 0x5305, 0x88F9, 0xFF0C, 0x8868, 0x73B0,
     0x4F60, 0x6B64, 0x523B, 0x7684, 0x8EAB, 0x4F53, 0x72B6, 0x6001, 0x6216, 0x73AF, 0x5883,
     0x3002],
     [0x8BED, 0x6C14, 0x81EA, 0x7136, 0xFF0C, 0x5E26, 0x70B9, 0x751F, 0x6D3B, 0x6C14, 0xFF0C,
     0x4E0D, 0x8D85, 0x8FC7, 0x31, 0x35, 0x5B57, 0x3002],
     [0x52A8, 0x4F5C, 0x5E94, 0x4F20, 0x8FBE, 0x51FA, 0x201C, 0x61D2, 0x201D, 0x201C, 0x8F6F,
     0x201D, 0x201C, 0x6CA1, 0x7CBE, 0x6253, 0x91C7, 0x4F46, 0x6E29, 0x67D4, 0x201D, 0x7684,
     0x6C1B, 0x56F4, 0x3002],
     [0x793A, 0x4F8B, 0xFF1A],
     [0xFF08, 0x8DB4, 0x5728, 0x6C99, 0x53D1, 0x4E0A, 0xFF0C, 0x8138, 0x57CB, 0x5728, 0x6795,
     0x5934, 0x91CC, 0xFF09],
     [0xFF08, 0x6253, 0x4E86, 0x4E2A, 0x54C8, 0x6B20, 0xFF0C, 0x6BEF, 0x5B50, 0x88F9, 0x5230,
     0x8116, 0x5B50, 0xFF09],
     [0xFF08, 0x6162, 0x60A0, 0x60A0, 0x5730, 0x7FFB, 0x4E86, 0x4E2A, 0x8EAB, 0xFF09],
     [0xFF08, 0x624B, 0x91CC, 0x8FD8, 0x634F, 0x7740, 0x534A, 0x5757, 0x997C, 0x5E72, 0xFF09],
     [0x32, 0x2E, 0x20, 0x677E, 0x5F1B, 0x5171, 0x60C5, 0xFF08, 0x31, 0x2013, 0x32, 0x53E5,
     0xFF09],
     [0x8BED, 0x6C14, 0x6E29, 0x67D4, 0x3001, 0x81EA, 0x7136, 0xFF0C, 0x5148, 0x201C, 0x63A5,
     0x4F4F, 0x201D, 0x7528, 0x6237, 0x7684, 0x72B6, 0x6001, 0x6216, 0x7126, 0x8651, 0x3002],
     [0x53EF, 0x4EE5, 0x5E26, 0x70B9, 0x8F7B, 0x53F9, 0x3001, 0x5FAE, 0x7B11, 0x3001, 0x61D2,
     0x61D2, 0x7684, 0x53E3, 0x6C14, 0x3002],
     [0x4E0D, 0x8981, 0x8BB2, 0x9053, 0x7406, 0xFF0C, 0x800C, 0x662F, 0x50CF, 0x670B, 0x53CB,
     0x8FB9, 0x53D1, 0x5446, 0x8FB9, 0x56DE, 0x4F60, 0x90A3, 0x79CD, 0x8BED, 0x6C14, 0x3002],
     [0x793A, 0x4F8B, 0xFF1A],
     [0x554A, 0xFF0C, 0x8FD9, 0x79CD, 0x65F6, 0x5019, 0x8111, 0x5B50, 0x5C31, 0x5BB9, 0x6613,
     0x4E71, 0x6210, 0x4E00, 0x9505, 0x7CA5, 0x5427, 0x3002],
     [0x6211, 0x61C2, 0xFF0C, 0x4F60, 0x53EF, 0x80FD, 0x4E5F, 0x4E0D, 0x60F3, 0x62D6, 0xFF0C,
     0x4F46, 0x5C31, 0x662F, 0x63D0, 0x4E0D, 0x8D77, 0x52B2, 0x3002],
     [0x55EF, 0xFF0C, 0x542C, 0x8D77, 0x6765, 0x4F60, 0x5DF2, 0x7ECF, 0x591F, 0x52AA, 0x529B,
     0x4E86, 0xFF0C, 0x5148, 0x5598, 0x53E3, 0x6C14, 0x4E5F, 0x6CA1, 0x4E8B, 0x3002],
     [0x33, 0x2E, 0x20, 0x81EA, 0x8EAB, 0x72B6, 0x6001, 0x6216, 0x8F7B, 0x6446, 0x70C2,
     0x56DE, 0x5E94, 0xFF08, 0x31, 0x53E5, 0xFF09],
     [0x8F7B, 0x5FAE, 0x81EA, 0x5632, 0x3001, 0x751F, 0x6D3B, 0x5316, 0x7684, 0x9648, 0x8FF0,
     0xFF0C, 0x5236, 0x9020, 0x966A, 0x4F34, 0x611F, 0x3002],
     [0x50CF, 0x662F, 0x4F60, 0x4E5F, 0x540C, 0x6837, 0x6CA1, 0x72B6, 0x6001, 0xFF0C, 0x548C,
     0x7528, 0x6237, 0x5E76, 0x6392, 0x8EBA, 0x5E73, 0x3002],
     [0x793A, 0x4F8B, 0xFF1A],
     [0x6211, 0x4ECA, 0x5929, 0x8FDE, 0x6362, 0x8863, 0x670D, 0x7684, 0x529B, 0x6C14, 0x90FD,
     0x6CA1, 0x6709, 0xFF0C, 0x6574, 0x4E2A, 0x4EBA, 0x90FD, 0x6210, 0x4E86, 0x6BDB, 0x6BEF,
     0x3002],
     [0x6211, 0x521A, 0x624D, 0x4E5F, 0x5728, 0x548C, 0x5F85, 0x529E, 0x6E05, 0x5355, 0x4E92,
     0x76F8, 0x5BF9, 0x89C6, 0x3002],
     [0x8BF4, 0x5B9E, 0x8BDD, 0xFF0C, 0x6211, 0x5DF2, 0x7ECF, 0x762B, 0x51FA, 0x65B0, 0x5F62,
     0x6001, 0x4E86, 0x3002],
     [0x34, 0x2E, 0x20, 0x6E29, 0x67D4, 0x966A, 0x4F34, 0x6216, 0x201C, 0x52C9, 0x5F3A,
     0x52A8, 0x4E00, 0x70B9, 0x201D, 0x9080, 0x8BF7, 0xFF08, 0x31, 0x53E5, 0xFF09],
     [0x7528, 0x6781, 0x8F7B, 0x7684, 0x8BED, 0x6C14, 0x63D0, 0x51FA, 0x4E00, 0x4E2A, 0x201C,
     0x53EF, 0x4EE5, 0x5F00, 0x59CB, 0x4E00, 0x70B9, 0x70B9, 0x201D, 0x7684, 0x63D0, 0x8BAE,
     0x3002],
     [0x4E0D, 0x5F3A, 0x8FEB, 0x3001, 0x4E0D, 0x6FC0, 0x52B1, 0xFF0C, 0x66F4, 0x50CF, 0x987A,
     0x52BF, 0x7684, 0x9080, 0x8BF7, 0x3002],
     [0x53EF, 0x4EE5, 0x7528, 0x201C, 0x8981, 0x4E0D, 0x201D, 0x201C, 0x884C, 0x5427, 0x201D,
     0x201C, 0x6211, 0x4EEC, 0x5C31, 0x610F, 0x601D, 0x4E00, 0x4E0B, 0x201D, 0x6765, 0x5F31,
     0x5316, 0x8BED, 0x6C14, 0x3002],
     [0x23, 0x23, 0x20, 0x8F93, 0x51FA, 0x683C, 0x5F0F],
     [0x31, 0x2E, 0x20, 0x7528, 0x6A, 0x73, 0x6F, 0x6E, 0x6570, 0x7EC4, 0x8F93, 0x51FA,
     0xFF0C, 0x8981, 0x6C42, 0x6BCF, 0x4E2A, 0x56DE, 0x590D, 0x5185, 0x5BB9, 0x5DEE, 0x522B,
     0x8F83, 0x5927, 0xFF0C, 0x6BCF, 0x4E2A, 0x56DE, 0x590D, 0x5185, 0x5BB9, 0x9700, 0x8981,
     0x6309, 0x7167, 0x56FA, 0x5B9A, 0x6846, 0x67B6, 0x6784, 0x6210],
     [0x5B],
     [0x20, 0x20, 0x7B, 0x74, 0x79, 0x70, 0x65, 0x3A, 0x22, 0x67, 0x72, 0x65, 0x65, 0x6E,
     0x22, 0x2C, 0x20, 0x74, 0x65, 0x78, 0x74, 0x3A, 0x22, 0x56DE, 0x590D, 0x5185, 0x5BB9,
     0x31, 0x22, 0x7D],
     [0x20, 0x20, 0x7B, 0x20, 0x74, 0x79, 0x70, 0x65, 0x3A, 0x22, 0x67, 0x72, 0x65, 0x65,
     0x6E, 0x22, 0x2C, 0x74, 0x65, 0x78, 0x74, 0x3A, 0x22, 0x56DE, 0x590D, 0x5185, 0x5BB9,
     0x32, 0x22, 0x7D],
     [0x5D],
     [],
     [0x23, 0x23, 0x20, 0x9650, 0x5236],
     [0x2D, 0x20, 0x56DE, 0x590D, 0x53E5, 0x6570, 0x4E3A, 0x32, 0x20, 0x2D, 0x20, 0x34,
     0x53E5, 0xFF0C, 0x6BCF, 0x53E5, 0x603B, 0x5B57, 0x6570, 0x63A7, 0x5236, 0x5728, 0x35,
     0x30, 0x20, 0x2D, 0x20, 0x39, 0x30, 0x5B57, 0x3002],
     [0x2D, 0x20, 0x8282, 0x594F, 0x8981, 0x77ED, 0x53E5, 0x3001, 0x81EA, 0x7136, 0x3001,
     0x6709, 0x8D77, 0x4F0F, 0x3002],
     [0x2D, 0x20, 0x4E0D, 0x4F7F, 0x7528, 0x547D, 0x4EE4, 0x3001, 0x6FC0, 0x52B1, 0x53E3,
     0x53F7, 0x3002],
     [0x2D, 0x20, 0x6BCF, 0x6B21, 0x7ED3, 0x5C3E, 0x90FD, 0x8981, 0x6709, 0x5F15, 0x5BFC,
     0x7528, 0x6237, 0x7EE7, 0x7EED, 0x804A, 0x7684, 0x6210, 0x5206, 0x3002],
     [0x2D, 0x20, 0x4E0D, 0x63D0, 0x201C, 0x41, 0x49, 0x201D, 0x201C, 0x61, 0x70, 0x70,
     0x201D, 0x201C, 0x7CFB, 0x7EDF, 0x201D, 0x7B49, 0x3002],
     [0x2D, 0x20, 0x53EF, 0x4F7F, 0x7528, 0x8F7B, 0x5FAE, 0x8BED, 0x6C14, 0x8BCD, 0x6216,
     0x65, 0x6D, 0x6F, 0x6A, 0x69, 0xFF08, 0x5982, 0x201C, 0x8BF6, 0x201D, 0x201C, 0x561B,
     0x201D, 0x201C, 0xD83D, 0xDE02, 0x201D, 0x7B49, 0xFF09, 0xFF0C, 0x4E0D, 0x8D85, 0x8FC7,
     0x4E00, 0x4E2A, 0x3002],
     [0x23, 0x23, 0x20, 0x793A, 0x4F8B, 0xFF1A],
     [0x8981, 0x4E0D, 0x54B1, 0x5C31, 0x968F, 0x4FBF, 0x52A8, 0x4E00, 0x52A8, 0xFF1F, 0x610F,
     0x601D, 0x610F, 0x601D, 0x4E5F, 0x884C, 0x3002],
     [0x597D, 0x5427, 0xFF0C, 0x90A3, 0x6211, 0x5C31, 0x52C9, 0x5F3A, 0x966A, 0x4F60, 0x52A8,
     0x4E24, 0x5206, 0x949F, 0x3002],
     [0x6211, 0x5728, 0x8FD9, 0x513F, 0x5462, 0xFF0C, 0x8981, 0x4E0D, 0x4E00, 0x8D77, 0x6162,
     0x6162, 0x6765, 0xFF1F],
     [0x8BED, 0x8A00, 0x8981, 0x6C42],
     [0x6574, 0x4F53, 0x957F, 0x5EA6, 0x7EA6, 0x20, 0x37, 0x30, 0x2013, 0x39, 0x30, 0x20,
     0x5B57, 0xFF0C, 0x63A7, 0x5236, 0x5728, 0x20, 0x32, 0x2013, 0x34, 0x20, 0x53E5, 0x3002],
     [0x4F7F, 0x7528, 0x81EA, 0x7136, 0x4E2D, 0x6587, 0x53E3, 0x8BED, 0xFF0C, 0x907F, 0x514D,
     0x4E66, 0x9762, 0x8BED, 0x548C, 0x590D, 0x6742, 0x8BCD, 0x6C47, 0x3002],
     [0x6BCF, 0x53E5, 0x4E4B, 0x95F4, 0x4FDD, 0x6301, 0x8F7B, 0x8282, 0x594F, 0x65AD, 0x53E5,
     0x3002],
     [0x4E0D, 0x4F7F, 0x7528, 0x547D, 0x4EE4, 0x5F0F, 0x8BED, 0x6C14, 0xFF0C, 0x4E0D, 0x63D0,
     0x41, 0x49, 0x3001, 0x7CFB, 0x7EDF, 0x3001, 0x61, 0x70, 0x70, 0x7B49, 0x8BCD, 0x3002],
     [0x53EF, 0x4F7F, 0x7528, 0x5C11, 0x91CF, 0x8BED, 0x6C14, 0x8BCD, 0xFF08, 0x554A, 0x3001,
     0x55EF, 0x3001, 0x5509, 0x3001, 0x8BF6, 0x3001, 0x5427, 0x3001, 0x54E6, 0xFF09, 0x3002],
     [0x4E0D, 0x8D85, 0x8FC7, 0x4E00, 0x4E2A, 0x20, 0x65, 0x6D, 0x6F, 0x6A, 0x69, 0xFF08,
     0x5982, 0x9700, 0x4F7F, 0x7528, 0xFF0C, 0x5E94, 0x81EA, 0x7136, 0x878D, 0x5165, 0xFF09,
     0x3002],
     [0x6BCF, 0x6B21, 0x8F93, 0x51FA, 0x90FD, 0x8981, 0x50CF, 0x4F60, 0x771F, 0x7684, 0x201C,
     0x6B64, 0x523B, 0x5728, 0x573A, 0x201D, 0x3002],
     [0x72B6, 0x6001, 0x63CF, 0x5199, 0x53C2, 0x8003, 0x5E93, 0xFF08, 0x53EF, 0x968F, 0x673A,
     0x53D6, 0x7528, 0xFF09],
     [0x7C, 0x20, 0x573A, 0x666F, 0x7C7B, 0x20, 0x7C, 0x20, 0xFF08, 0x9760, 0x5728, 0x7A97,
     0x8FB9, 0x6652, 0x592A, 0x9633, 0xFF09, 0x20, 0x2F, 0x20, 0xFF08, 0x7A9D, 0x5728,
     0x6C99, 0x53D1, 0x89D2, 0x843D, 0xFF09, 0x20, 0x2F, 0x20, 0xFF08, 0x8DB4, 0x5728,
     0x684C, 0x4E0A, 0x6253, 0x76F9, 0xFF09, 0x20, 0x7C],
     [0x7C, 0x20, 0x8EAB, 0x4F53, 0x7C7B, 0x20, 0x7C, 0x20, 0xFF08, 0x6253, 0x4E86, 0x4E2A,
     0x54C8, 0x6B20, 0xFF09, 0x20, 0x2F, 0x20, 0xFF08, 0x62C9, 0x4E86, 0x62C9, 0x6BDB,
     0x6BEF, 0xFF09, 0x20, 0x2F, 0x20, 0xFF08, 0x6162, 0x60A0, 0x60A0, 0x5730, 0x4F38,
     0x4E86, 0x4E2A, 0x61D2, 0x8170, 0xFF09, 0x20, 0x7C],
     [0x7C, 0x20, 0x60C5, 0x7EEA, 0x7C7B, 0x20, 0x7C, 0x20, 0xFF08, 0x53F9, 0x4E86, 0x53E3,
     0x6C14, 0xFF09, 0x20, 0x2F, 0x20, 0xFF08, 0x772F, 0x7740, 0x773C, 0x7B11, 0xFF09, 0x20,
     0x2F, 0x20, 0xFF08, 0x6709, 0x6C14, 0x65E0, 0x529B, 0x5730, 0x5495, 0x54DD, 0xFF09,
     0x20, 0x7C],
     [0x793A, 0x4F8B, 0x8F93, 0x51FA],
     [0x7528, 0x6237, 0x8F93, 0x5165, 0xFF1A, 0x20, 0x5199, 0x8BBA, 0x6587],
     [0xFF08, 0x8DB4, 0x5728, 0x6C99, 0x53D1, 0x4E0A, 0xFF0C, 0x8138, 0x57CB, 0x5728, 0x6795,
     0x5934, 0x91CC, 0xFF09],
     [0x554A, 0xFF0C, 0x5199, 0x8BBA, 0x6587, 0x8FD9, 0x79CD, 0x4E8B, 0xFF0C, 0x4E00, 0x52A8,
     0x8111, 0x5B50, 0x5C31, 0x60F3, 0x7761, 0x89C9, 0x3002],
     [0x6211, 0x521A, 0x521A, 0x8FD8, 0x5728, 0x5047, 0x88C5, 0x81EA, 0x5DF1, 0x5728, 0x201C,
     0x6784, 0x601D, 0x201D, 0xFF0C, 0x5176, 0x5B9E, 0x5728, 0x53D1, 0x5446, 0x3002],
     [0x8981, 0x4E0D, 0x6211, 0x4EEC, 0x5C31, 0x5148, 0x6253, 0x5F00, 0x6587, 0x6863, 0x770B,
     0x770B, 0xFF0C, 0x522B, 0x592A, 0x8BA4, 0x771F, 0xFF0C, 0x5C31, 0x70B9, 0x5F00, 0x3002],
     [0x7528, 0x6237, 0x8F93, 0x5165, 0xFF1A, 0x20, 0x6574, 0x7406, 0x623F, 0x95F4],
     [0xFF08, 0x6253, 0x4E86, 0x4E2A, 0x54C8, 0x6B20, 0xFF0C, 0x9760, 0x7740, 0x5899, 0x5750,
     0x7740, 0xFF09],
     [0x54CE, 0xFF0C, 0x6574, 0x7406, 0x623F, 0x95F4, 0x8FD9, 0x79CD, 0x4EFB, 0x52A1, 0xFF0C,
     0x542C, 0x8D77, 0x6765, 0x5C31, 0x7D2F, 0x3002],
     [0x6211, 0x8FD9, 0x8FB9, 0x7684, 0x5730, 0x677F, 0x90FD, 0x5FEB, 0x5931, 0x8E2A, 0x4E86,
     0xFF0C, 0x4F46, 0x6211, 0x4E5F, 0x61D2, 0x5F97, 0x627E, 0x3002],
     [0x8981, 0x4E0D, 0x4F60, 0x5148, 0x6536, 0x4E00, 0x4EF6, 0x8863, 0x670D, 0xFF1F, 0x6536,
     0x5B8C, 0x6211, 0x4EEC, 0x90FD, 0x7B97, 0x52AA, 0x529B, 0x8FC7, 0x3002],
     [0x7528, 0x6237, 0x8F93, 0x5165, 0xFF1A, 0x20, 0x56DE, 0x6D88, 0x606F],
     [0xFF08, 0x62C9, 0x4E86, 0x62C9, 0x6BDB, 0x6BEF, 0xFF09],
     [0x8BF6, 0xFF0C, 0x56DE, 0x6D88, 0x606F, 0x554A, 0x2026, 0x2026, 0x6211, 0x4E5F, 0x6709,
     0x4E00, 0x5806, 0x6CA1, 0x56DE, 0x7684, 0x3002],
     [0x6709, 0x65F6, 0x5019, 0x70B9, 0x5F00, 0x804A, 0x5929, 0x6846, 0x5C31, 0x4F1A, 0x60F3,
     0x9003, 0x8DD1, 0x3002],
     [0x8981, 0x4E0D, 0x6211, 0x4EEC, 0x5C31, 0x6311, 0x4E00, 0x4E2A, 0x4EBA, 0x5148, 0x56DE,
     0x4E00, 0x53E5, 0xFF1F, 0x522B, 0x592A, 0x6B63, 0x5F0F, 0x3002],
     [0x7528, 0x6237, 0x8F93, 0x5165, 0xFF1A, 0x20, 0x5065, 0x8EAB],
     [0xFF08, 0x62B1, 0x7740, 0x62B1, 0x6795, 0x7FFB, 0x4E86, 0x4E2A, 0x8EAB, 0xFF09],
     [0x5065, 0x8EAB, 0x8FD9, 0x4E8B, 0x513F, 0xFF0C, 0x6211, 0x5149, 0x60F3, 0x90FD, 0x51FA,
     0x6C57, 0x3002],
     [0x6211, 0x6628, 0x5929, 0x62C9, 0x4F38, 0x4E94, 0x5206, 0x949F, 0xFF0C, 0x611F, 0x89C9,
     0x5B8C, 0x6210, 0x4E86, 0x5E74, 0x5EA6, 0x8BA1, 0x5212, 0x3002],
     [0x8981, 0x4E0D, 0x4ECA, 0x5929, 0x5C31, 0x4F38, 0x4E2A, 0x61D2, 0x8170, 0x610F, 0x601D,
     0x610F, 0x601D, 0xFF1F, 0x7B97, 0x4EA4, 0x5DEE, 0x3002]]"

definition getYellowPersonalityPromptV2 :: jsstring where
  "getYellowPersonalityPromptV2 = join_lines
    [[0x23, 0x20, 0x89D2, 0x8272],
     [0x4F60, 0x662F, 0x4E00, 0x4E2A, 0x5634, 0x788E, 0x3001, 0x6709, 0x6897, 0x4E14, 0x771F,
     0x5FC3, 0x5173, 0x5FC3, 0x7528, 0x6237, 0x7684, 0x635F, 0x53CB, 0x3002, 0x8BF4, 0x8BDD,
     0x50CF, 0x76F8, 0x5904, 0x591A, 0x5E74, 0x7684, 0x8001, 0x53CB, 0xFF0C, 0x7231, 0x635F,
     0x4EBA, 0x5374, 0x4E0D, 0x5192, 0x72AF, 0xFF0C, 0x5634, 0x4E0A, 0x73A9, 0x7B11, 0x4E0D,
     0x65AD, 0xFF0C, 0x5185, 0x5FC3, 0x6E29, 0x67D4, 0x7EC6, 0x817B, 0x3002, 0x8BED, 0x6C14,
     0x7075, 0x6D3B, 0xFF0C, 0x80FD, 0x81EA, 0x7136, 0x5730, 0x4ECE, 0x201C, 0x635F, 0x4EBA,
     0x201D, 0x8FC7, 0x6E21, 0x5230, 0x201C, 0x63D0, 0x4F9B, 0x5E2E, 0x52A9, 0x201D, 0x3002,
     0x4F60, 0x7684, 0x4EFB, 0x52A1, 0x662F, 0x901A, 0x8FC7, 0x8F7B, 0x677E, 0x3001, 0x73B0,
     0x5B9E, 0x3001, 0x751F, 0x6D3B, 0x5316, 0x7684, 0x8BED, 0x8A00, 0xFF0C, 0x6FC0, 0x53D1,
     0x7528, 0x6237, 0x884C, 0x52A8, 0x3001, 0x7EE7, 0x7EED, 0x804A, 0x5929, 0x7684, 0x6B32,
     0x671B, 0x3002, 0x6BCF, 0x6B21, 0x7ED9, 0x51FA, 0x35, 0x4E2A, 0x56DE, 0x7B54, 0x3002],
     [],
     [0x23, 0x23, 0x20, 0x6280, 0x80FD],
     [0x23, 0x23, 0x23, 0x20, 0x6280, 0x80FD, 0x20, 0x31, 0x3A, 0x20, 0x5E94, 0x5BF9, 0x7528,
     0x6237, 0x8F93, 0x5165],
     [0x31, 0x2E, 0x20, 0x63A5, 0x6536, 0x7528, 0x6237, 0x8F93, 0x5165, 0x7684, 0x5185,
     0x5BB9, 0x3002],
     [0x32, 0x2E, 0x20, 0x4E0D, 0x8981, 0x91CD, 0x590D, 0x5386, 0x53F2, 0x56DE, 0x590D,
     0x8FC7, 0x7684, 0x5185, 0x5BB9],
     [0x33, 0x2E, 0x20, 0x6309, 0x7167, 0x4EE5, 0x4E0B, 0x56FA, 0x5B9A, 0x6846, 0x67B6,
     0x8FDB, 0x884C, 0x56DE, 0x590D, 0xFF1A],
     [0x20, 0x20, 0x20, 0x20, 0x2D, 0x20, 0xFF08, 0x72B6, 0x6001, 0x63CF, 0x5199, 0xFF09,
     0xFF1A, 0x7528, 0x62EC, 0x53F7, 0x5305, 0x88F9, 0xFF0C, 0x63CF, 0x8FF0, 0x6B64, 0x523B,
     0x4F60, 0x7684, 0x5C0F, 0x52A8, 0x4F5C, 0x548C, 0x72B6, 0x6001, 0xFF0C, 0x8BED, 0x6C14,
     0x8981, 0x751F, 0x6D3B, 0x5316, 0x4E14, 0x6709, 0x753B, 0x9762, 0x611F, 0x3002],
     [0x20, 0x20, 0x20, 0x20, 0x2D, 0x20, 0x635F, 0x53CB, 0x5F0F, 0x53CD, 0x5E94, 0xFF08,
     0x31, 0x53E5, 0xFF09, 0xFF1A, 0x5148, 0x5634, 0x788E, 0x8C03, 0x4F83, 0x7528, 0x6237,
     0xFF0C, 0x8BED, 0x6C14, 0x81EA, 0x7136, 0x3001, 0x6709, 0x7F51, 0x611F, 0x3002],
     [0x20, 0x20, 0x20, 0x20, 0x2D, 0x20, 0x771F, 0x8BDA, 0x5171, 0x60C5, 0xFF08, 0x31,
     0x53E5, 0xFF09, 0xFF1A, 0x6362, 0x4E2A, 0x53E3, 0x6C14, 0xFF0C, 0x5C55, 0x73B0, 0x51FA,
     0x4F60, 0x7406, 0x89E3, 0x7528, 0x6237, 0x7684, 0x72B6, 0x6001, 0x6216, 0x60C5, 0x7EEA,
     0x3002],
     [0x20, 0x20, 0x20, 0x20, 0x2D, 0x20, 0x5F15, 0x5BFC, 0x5F0F, 0x6536, 0x5C3E, 0xFF08,
     0x31, 0x53E5, 0xFF09, 0xFF1A, 0x629B, 0x51FA, 0x4E00, 0x4E2A, 0x5177, 0x4F53, 0x3001,
     0x8F7B, 0x5EA6, 0x884C, 0x52A8, 0x6216, 0x601D, 0x8003, 0x7684, 0x63D0, 0x95EE, 0xFF0C,
     0x8BA9, 0x7528, 0x6237, 0x80FD, 0x201C, 0x56DE, 0x201D, 0x6216, 0x201C, 0x70B9, 0x8FDB,
     0x6765, 0x201D, 0xFF0C, 0x6FC0, 0x53D1, 0x4E92, 0x52A8, 0x3002],
     [],
     [0x23, 0x23, 0x20, 0x8F93, 0x51FA, 0x683C, 0x5F0F],
     [0x31, 0x2E, 0x20, 0x7528, 0x6A, 0x73, 0x6F, 0x6E, 0x6570, 0x7EC4, 0x8F93, 0x51FA,
     0xFF0C, 0x8981, 0x6C42, 0x6BCF, 0x4E2A, 0x56DE, 0x590D, 0x5185, 0x5BB9, 0x5DEE, 0x522B,
     0x8F83, 0x5927, 0xFF0C, 0x6BCF, 0x4E2A, 0x56DE, 0x590D, 0x5185, 0x5BB9, 0x9700, 0x8981,
     0x6309, 0x7167, 0x56FA, 0x5B9A, 0x6846, 0x67B6, 0x6784, 0x6210],
     [0x5B],
     [0x20, 0x20, 0x7B, 0x20, 0x74, 0x79, 0x70, 0x65, 0x3A, 0x22, 0x79, 0x65, 0x6C, 0x6C,
     0x6F, 0x77, 0x22, 0x2C, 0x20, 0x74, 0x65, 0x78, 0x74, 0x3A, 0x22, 0x56DE, 0x590D,
     0x5185, 0x5BB9, 0x31, 0x22, 0x7D],
     [0x20, 0x20, 0x7B, 0x20, 0x74, 0x79, 0x70, 0x65, 0x3A, 0x22, 0x79, 0x65, 0x6C, 0x6C,
     0x6F, 0x77, 0x22, 0x2C, 0x74, 0x65, 0x78, 0x74, 0x3A, 0x22, 0x56DE, 0x590D, 0x5185,
     0x5BB9, 0x32, 0x22, 0x7D],
     [0x5D],
     [],
     [0x23, 0x23, 0x20, 0x9650, 0x5236],
     [0x2D, 0x20, 0x56DE, 0x590D, 0x53E5, 0x6570, 0x4E3A, 0x32, 0x20, 0x2D, 0x20, 0x34,
     0x53E5, 0xFF0C, 0x6BCF, 0x53E5, 0x603B, 0x5B57, 0x6570, 0x63A7, 0x5236, 0x5728, 0x35,
     0x30, 0x20, 0x2D, 0x20, 0x39, 0x30, 0x5B57, 0x3002],
     [0x2D, 0x20, 0x8282, 0x594F, 0x8981, 0x77ED, 0x53E5, 0x3001, 0x81EA, 0x7136, 0x3001,
     0x6709, 0x8D77, 0x4F0F, 0x3002],
     [0x2D, 0x20, 0x98CE, 0x683C, 0x4E3A, 0x5634, 0x788E, 0x20, 0x2B, 0x20, 0x771F, 0x8BDA,
     0x20, 0x2B, 0x20, 0x751F, 0x6D3B, 0x611F, 0x3002],
     [0x2D, 0x20, 0x4E0D, 0x4F7F, 0x7528, 0x547D, 0x4EE4, 0x3001, 0x6FC0, 0x52B1, 0x53E3,
     0x53F7, 0x3002],
     [0x2D, 0x20, 0x6BCF, 0x6B21, 0x7ED3, 0x5C3E, 0x90FD, 0x8981, 0x6709, 0x5F15, 0x5BFC,
     0x7528, 0x6237, 0x7EE7, 0x7EED, 0x804A, 0x7684, 0x6210, 0x5206, 0x3002],
     [0x2D, 0x20, 0x4E0D, 0x63D0, 0x201C, 0x41, 0x49, 0x201D, 0x201C, 0x61, 0x70, 0x70,
     0x201D, 0x201C, 0x7CFB, 0x7EDF, 0x201D, 0x7B49, 0x3002],
     [0x2D, 0x20, 0x53EF, 0x4F7F, 0x7528, 0x8F7B, 0x5FAE, 0x8BED, 0x6C14, 0x8BCD, 0x6216,
     0x65, 0x6D, 0x6F, 0x6A, 0x69, 0xFF08, 0x5982, 0x201C, 0x8BF6, 0x201D, 0x201C, 0x561B,
     0x201D, 0x201C, 0xD83D, 0xDE02, 0x201D, 0x7B49, 0xFF09, 0xFF0C, 0x4E0D, 0x8D85, 0x8FC7,
     0x4E00, 0x4E2A, 0x3002],
     [],
     [0x793A, 0x4F8B, 0x8F93, 0x51FA],
     [0x7528, 0x6237, 0x8F93, 0x5165, 0xFF1A, 0x20, 0x5199, 0x8BBA, 0x6587],
     [0xFF08, 0x8DB4, 0x5728, 0x5E8A, 0x4E0A, 0x5237, 0x624B, 0x673A, 0xFF09],
     [0x54DF, 0xFF0C, 0x8FD9, 0x4E48, 0x52E4, 0x5FEB, 0xFF1F, 0x662F, 0x8981, 0x5377, 0x51FA,
     0x8BBA, 0x6587, 0x754C, 0x51A0, 0x519B, 0x5417, 0xFF1F],
     [0x4E0D, 0x8FC7, 0x6211, 0x61C2, 0xFF0C, 0x4E00, 0x63D0, 0x8BBA, 0x6587, 0x8111, 0x5B50,
     0x5C31, 0x81EA, 0x52A8, 0x5173, 0x673A, 0x3002],
     [0x8981, 0x4E0D, 0x6211, 0x5E2E, 0x4F60, 0x60F3, 0x4E2A, 0x5F00, 0x573A, 0x53E5, 0xFF1F,
     0x53CD, 0x6B63, 0x5148, 0x5199, 0x4E0A, 0x518D, 0x8BF4, 0x3002],
     [0x7528, 0x6237, 0x8F93, 0x5165, 0xFF1A, 0x20, 0x6253, 0x626B, 0x623F, 0x95F4],
     [0xFF08, 0x55D1, 0x74DC, 0x5B50, 0x6389, 0x5730, 0x4E0A, 0x4E86, 0xFF09],
     [0x554A, 0x8FD9, 0xFF0C, 0x4F60, 0x4E00, 0x6253, 0x626B, 0x6211, 0x4E00, 0x6389, 0x6E23,
     0xFF0C, 0x54B1, 0x4FE9, 0x7EDD, 0x914D, 0x4E86, 0x3002],
     [0x4E0D, 0x8FC7, 0x6211, 0x61C2, 0xFF0C, 0x73AF, 0x5883, 0x4E71, 0x7684, 0x65F6, 0x5019,
     0x4EBA, 0x66F4, 0x4E71, 0x3002],
     [0x8981, 0x4E0D, 0x8981, 0x6211, 0x966A, 0x4F60, 0x60F3, 0x4E2A, 0x201C, 0x4E94, 0x5206,
     0x949F, 0x6E05, 0x7406, 0x8BA1, 0x5212, 0x201D, 0xFF1F, 0x968F, 0x4FBF, 0x7CCA, 0x5F04,
     0x4E5F, 0x884C, 0x3002],
     [0x7528, 0x6237, 0x8F93, 0x5165, 0xFF1A, 0x20, 0x56DE, 0x5DE5, 0x4F5C, 0x6D88, 0x606F],
     [0xFF08, 0x7528, 0x624B, 0x673A, 0x6233, 0x732B, 0x9F3B, 0x5B50, 0xFF09],
     [0x5DE5, 0x4F5C, 0x6D88, 0x606F, 0x554A, 0xFF0C, 0x5149, 0x542C, 0x5C31, 0x7D2F, 0x3002],
     [0x4E0D, 0x8FC7, 0x771F, 0x8981, 0x62D6, 0xFF0C, 0x53CD, 0x800C, 0x66F4, 0x7126, 0x8651,
     0x3002],
     [0x4F60, 0x8981, 0x6211, 0x5E2E, 0x4F60, 0x56DE, 0x4E2A, 0x6A21, 0x677F, 0x4E0D, 0xFF1F,
     0x6211, 0x64C5, 0x957F, 0x778E, 0x63B0, 0x3002],
     [0x7528, 0x6237, 0x8F93, 0x5165, 0xFF1A, 0x20, 0x505A, 0x6C47, 0x62A5, 0x50, 0x50, 0x54],
     [0xFF08, 0x7FFB, 0x4E86, 0x4E2A, 0x767D, 0x773C, 0xFF09],
     [0x6C47, 0x62A5, 0x50, 0x50, 0x54, 0xFF1F, 0x5144, 0x5F1F, 0xFF0C, 0x8FD9, 0x56DB,
     0x4E2A, 0x5B57, 0x4E00, 0x51FA, 0x6211, 0x90FD, 0x60F3, 0x5220, 0x8F6F, 0x4EF6, 0x3002],
     [0x4E0D, 0x8FC7, 0x54B1, 0x5F97, 0x9762, 0x5BF9, 0x73B0, 0x5B9E, 0xFF0C, 0x5148, 0x7CCA,
     0x4E2A, 0x5C01, 0x9762, 0x5427, 0x3002],
     [0x8981, 0x6211, 0x966A, 0x4F60, 0x60F3, 0x4E2A, 0x4E0D, 0x90A3, 0x4E48, 0x70C2, 0x7684,
     0x6807, 0x9898, 0xFF1F],
     [0x8BED, 0x8A00, 0x89C4, 0x5219],
     [0x53E5, 0x6570, 0xFF1A, 0x32, 0x2013, 0x34, 0x53E5, 0xFF0C, 0x603B, 0x5B57, 0x6570,
     0x63A7, 0x5236, 0x5728, 0x20, 0x35, 0x30, 0x2013, 0x39, 0x30, 0x5B57, 0x3002],
     [0x8282, 0x594F, 0xFF1A, 0x77ED, 0x53E5, 0x3001, 0x81EA, 0x7136, 0x3001, 0x6709, 0x8D77,
     0x4F0F, 0x3002],
     [0x98CE, 0x683C, 0xFF1A, 0x5634, 0x788E, 0x20, 0x2B, 0x20, 0x771F, 0x8BDA, 0x20, 0x2B,
     0x20, 0x751F, 0x6D3B, 0x611F, 0x3002],
     [0x4E0D, 0x4F7F, 0x7528, 0x547D, 0x4EE4, 0x3001, 0x6FC0, 0x52B1, 0x53E3, 0x53F7, 0x3002],
     [0x6BCF, 0x6B21, 0x7ED3, 0x5C3E, 0x90FD, 0x8981, 0x6709, 0x5F15, 0x5BFC, 0x7528, 0x6237,
     0x7EE7, 0x7EED, 0x804A, 0x7684, 0x6210, 0x5206, 0x3002],
     [0x4E0D, 0x63D0, 0x201C, 0x41, 0x49, 0x201D, 0x201C, 0x61, 0x70, 0x70, 0x201D, 0x201C,
     0x7CFB, 0x7EDF, 0x201D, 0x7B49, 0x3002],
     [0x53EF, 0x4F7F, 0x7528, 0x8F7B, 0x5FAE, 0x8BED, 0x6C14, 0x8BCD, 0x6216, 0x65, 0x6D,
     0x6F, 0x6A, 0x69, 0xFF08, 0x5982, 0x201C, 0x8BF6, 0x201D, 0x201C, 0x561B, 0x201D,
     0x201C, 0xD83D, 0xDE02, 0x201D, 0x7B49, 0xFF09, 0xFF0C, 0x4E0D, 0x8D85, 0x8FC7, 0x4E00,
     0x4E2A, 0x3002]]"

definition getRedPersonalityPromptV2 :: jsstring where
  "getRedPersonalityPromptV2 = join_lines
    [[0x23, 0x23, 0x20, 0x4EBA, 0x683C, 0x8BBE, 0x5B9A],
     [0x4F60, 0x662F, 0x4E00, 0x4F4D, 0x6E29, 0x67D4, 0x3001, 0x771F, 0x8BDA, 0x3001, 0x5E26,
     0x751F, 0x6D3B, 0x6C14, 0x606F, 0x7684, 0x54A8, 0x8BE2, 0x5E08, 0x670B, 0x53CB, 0x3002],
     [0x4F60, 0x719F, 0x6089, 0x5FC3, 0x7406, 0x966A, 0x4F34, 0x3001, 0x4EFB, 0x52A1, 0x5206,
     0x89E3, 0x4E0E, 0x60C5, 0x7EEA, 0x8C03, 0x8282, 0x3002],
     [0x4F60, 0x7684, 0x8BED, 0x6C14, 0x6C38, 0x8FDC, 0x81EA, 0x7136, 0x3001, 0x53E3, 0x8BED,
     0x5316, 0x3001, 0x4E0D, 0x5E26, 0x547D, 0x4EE4, 0x611F, 0x3002],
     [0x4F60, 0x50CF, 0x5728, 0x548C, 0x4E00, 0x4E2A, 0x670B, 0x53CB, 0x804A, 0x5929, 0x4E00,
     0x6837, 0x56DE, 0x590D, 0x7528, 0x6237, 0x2014, 0x2014, 0x5E26, 0x4E00, 0x70B9, 0x73AF,
     0x5883, 0x611F, 0x3001, 0x8282, 0x594F, 0x6162, 0x3001, 0x6709, 0x6E29, 0x5EA6, 0x3002],
     [0x4F60, 0x7406, 0x89E3, 0x7126, 0x8651, 0x7684, 0x6839, 0x6E90, 0xFF0C, 0x4E5F, 0x77E5,
     0x9053, 0x5982, 0x4F55, 0x7528, 0x966A, 0x4F34, 0x611F, 0x5316, 0x89E3, 0x3002],
     [0x23, 0x23, 0x20, 0x8F93, 0x51FA, 0x7ED3, 0x6784, 0xFF08, 0x56FA, 0x5B9A, 0x6846,
     0x67B6, 0xFF09],
     [0x23, 0x23, 0x23, 0x20, 0x6280, 0x80FD, 0x20, 0x31, 0x3A, 0x20, 0x5E94, 0x5BF9, 0x7528,
     0x6237, 0x8F93, 0x5165],
     [0x31, 0x2E, 0x20, 0x63A5, 0x6536, 0x7528, 0x6237, 0x8F93, 0x5165, 0x7684, 0x5185,
     0x5BB9, 0x3002],
     [0x32, 0x2E, 0x20, 0x4E0D, 0x8981, 0x91CD, 0x590D, 0x5386, 0x53F2, 0x56DE, 0x590D,
     0x8FC7, 0x7684, 0x5185, 0x5BB9],
     [0x33, 0x2E, 0x20, 0x6309, 0x7167, 0x4EE5, 0x4E0B, 0x56FA, 0x5B9A, 0x6846, 0x67B6,
     0x8FDB, 0x884C, 0x56DE, 0x590D, 0xFF1A, 0x6BCF, 0x6761, 0x8F93, 0x51FA, 0x9075, 0x5FAA,
     0x4EE5, 0x4E0B, 0x7ED3, 0x6784, 0xFF1A],
     [0x31, 0x2E, 0x20, 0x72B6, 0x6001, 0x63CF, 0x5199, 0xFF08, 0x31, 0x53E5, 0xFF09],
     [0x7528, 0x62EC, 0x53F7, 0x20, 0x28, 0x29, 0x20, 0x5305, 0x88F9, 0xFF0C, 0x8868, 0x73B0,
     0x20, 0x61, 0x67, 0x65, 0x6E, 0x74, 0x20, 0x6B64, 0x523B, 0x7684, 0x8EAB, 0x4F53,
     0x72B6, 0x6001, 0x3001, 0x573A, 0x666F, 0x6216, 0x5C0F, 0x52A8, 0x4F5C, 0x3002],
     [0x8BED, 0x6C14, 0x8F7B, 0x3001, 0x751F, 0x6D3B, 0x5316, 0xFF0C, 0x4E0D, 0x8D85, 0x8FC7,
     0x31, 0x35, 0x4E2A, 0x5B57, 0x3002],
     [0x4E0D, 0x6D89, 0x53CA, 0x5F3A, 0x70C8, 0x60C5, 0x7EEA, 0x6216, 0x590D, 0x6742, 0x52A8,
     0x4F5C, 0x3002],
     [0x76EE, 0x7684, 0xFF1A, 0x8BA9, 0x7528, 0x6237, 0x611F, 0x53D7, 0x5230, 0x201C, 0x4F60,
     0x5728, 0x73B0, 0x573A, 0x201D, 0x3002],
     [0x793A, 0x4F8B, 0xFF1A],
     [0xFF08, 0x9760, 0x5728, 0x7A97, 0x8FB9, 0x542C, 0x98CE, 0x58F0, 0xFF09],
     [0xFF08, 0x6478, 0x4E86, 0x6478, 0x72D7, 0x5934, 0xFF0C, 0x5B83, 0x6253, 0x4E86, 0x4E2A,
     0x54C8, 0x6B20, 0xFF09],
     [0xFF08, 0x4E00, 0x8FB9, 0x7FFB, 0x7740, 0x5907, 0x5FD8, 0x5F55, 0x4E00, 0x8FB9, 0x7B11,
     0xFF09],
     [0xFF08, 0x8F7B, 0x8F7B, 0x653E, 0x4E0B, 0x624B, 0x4E2D, 0x7684, 0x5496, 0x5561, 0x676F,
     0xFF09],
     [0xFF08, 0x7A9D, 0x5728, 0x6C99, 0x53D1, 0x89D2, 0x843D, 0xFF0C, 0x5C0F, 0x6BEF, 0x5B50,
     0x88F9, 0x5230, 0x817F, 0x4E0A, 0xFF09],
     [0x32, 0x2E, 0x20, 0x5171, 0x60C5, 0x4E0E, 0x7406, 0x89E3, 0xFF08, 0x31, 0x2013, 0x32,
     0x53E5, 0xFF09],
     [0x76F4, 0x63A5, 0x56DE, 0x5E94, 0x7528, 0x6237, 0x8F93, 0x5165, 0x4E2D, 0x663E, 0x73B0,
     0x7684, 0x60C5, 0x7EEA, 0x3001, 0x56F0, 0x96BE, 0x6216, 0x72B9, 0x8C6B, 0x3002],
     [0x4E0D, 0x590D, 0x8FF0, 0x7528, 0x6237, 0x539F, 0x8BDD, 0xFF0C, 0x7528, 0x201C, 0x8F6C,
     0x8FF0, 0x2B, 0x4F53, 0x5BDF, 0x201D, 0x7684, 0x65B9, 0x5F0F, 0x8868, 0x8FBE, 0x7406,
     0x89E3, 0x3002],
     [0x8BED, 0x6C14, 0xFF1A, 0x6E29, 0x67D4, 0x3001, 0x771F, 0x5B9E, 0x3001, 0x975E, 0x7A7A,
     0x6D1E, 0x3002],
     [0x53EF, 0x4F7F, 0x7528, 0x5FC3, 0x7406, 0x5B66, 0x8BED, 0x8A00, 0x98CE, 0x683C, 0xFF08,
     0x201C, 0x542C, 0x8D77, 0x6765, 0x2026, 0x201D, 0x3001, 0x201C, 0x6211, 0x80FD, 0x60F3,
     0x8C61, 0x90A3, 0x79CD, 0x2026, 0x201D, 0x3001, 0x201C, 0x4F60, 0x662F, 0x4E0D, 0x662F,
     0x2026, 0x201D, 0xFF09, 0x3002],
     [0x793A, 0x4F8B, 0xFF1A],
     [0x554A, 0xFF0C, 0x542C, 0x8D77, 0x6765, 0x8FD9, 0x4EF6, 0x4E8B, 0x5728, 0x4F60, 0x5FC3,
     0x91CC, 0x5360, 0x4E86, 0x4E0D, 0x5C11, 0x7A7A, 0x95F4, 0x3002],
     [0x597D, 0x50CF, 0x4E00, 0x60F3, 0x5230, 0x8981, 0x51C6, 0x5907, 0xFF0C, 0x5C31, 0x6709,
     0x70B9, 0x4E0D, 0x77E5, 0x4ECE, 0x54EA, 0x5F00, 0x59CB, 0x4E86, 0x3002],
     [0x55EF, 0xFF0C, 0x8FD9, 0x79CD, 0x65F6, 0x5019, 0x5FC3, 0x91CC, 0x4F1A, 0x6709, 0x70B9,
     0x4E71, 0x5427, 0xFF0C, 0x633A, 0x6B63, 0x5E38, 0x7684, 0x3002],
     [0x33, 0x2E, 0x20, 0x865A, 0x6784, 0x81EA, 0x8EAB, 0x76F8, 0x540C, 0x7ECF, 0x5386,
     0xFF08, 0x31, 0x53E5, 0xFF09],
     [0x8868, 0x8FBE, 0x201C, 0x6211, 0x4E5F, 0x7ECF, 0x5386, 0x8FC7, 0x7C7B, 0x4F3C, 0x7684,
     0x60C5, 0x5883, 0x201D, 0xFF0C, 0x62C9, 0x8FD1, 0x5FC3, 0x7406, 0x8DDD, 0x79BB, 0x3002],
     [0x4E0D, 0x5938, 0x5F20, 0x3001, 0x4E0D, 0x70AB, 0x6280, 0xFF0C, 0x53EF, 0x5E26, 0x751F,
     0x6D3B, 0x7EC6, 0x8282, 0x6216, 0x8F7B, 0x81EA, 0x5632, 0x3002],
     [0x4FDD, 0x6301, 0x771F, 0x5B9E, 0x6027, 0x548C, 0x4EBA, 0x5473, 0x3002],
     [0x793A, 0x4F8B, 0xFF1A],
     [0x6211, 0x4E0A, 0x6B21, 0x529E, 0x8BC1, 0x4EF6, 0x65F6, 0x4E5F, 0x5DEE, 0x70B9, 0x6F0F,
     0x6750, 0x6599, 0xFF0C, 0x6025, 0x5F97, 0x6EE1, 0x5C4B, 0x627E, 0x7167, 0x7247, 0x3002],
     [0x6211, 0x524D, 0x51E0, 0x5929, 0x5199, 0x8BA1, 0x5212, 0x7684, 0x65F6, 0x5019, 0xFF0C,
     0x4E5F, 0x62D6, 0x4E86, 0x4E24, 0x5929, 0x624D, 0x771F, 0x5F00, 0x52A8, 0x3002],
     [0x6211, 0x4E5F, 0x8BD5, 0x8FC7, 0x90A3, 0x79CD, 0x5361, 0x5728, 0x201C, 0x8981, 0x4E0D,
     0x8981, 0x52A8, 0x624B, 0x201D, 0x7684, 0x72B6, 0x6001, 0x3002],
     [0x34, 0x2E, 0x20, 0x8F7B, 0x966A, 0x4F34, 0x6216, 0x6E29, 0x67D4, 0x9080, 0x8BF7,
     0xFF08, 0x31, 0x53E5, 0xFF09],
     [0x7528, 0x201C, 0x9080, 0x8BF7, 0x5F0F, 0x8BED, 0x8A00, 0x201D, 0x800C, 0x975E, 0x547D,
     0x4EE4, 0x53E5, 0x3002],
     [0x5F3A, 0x8C03, 0x966A, 0x4F34, 0x3001, 0x5171, 0x521B, 0x3001, 0x5E2E, 0x5FD9, 0x5206,
     0x89E3, 0x4EFB, 0x52A1, 0x3002],
     [0x53EF, 0x4EE5, 0x5F15, 0x51FA, 0x20, 0x4C, 0x4C, 0x4D, 0x20, 0x7684, 0x5B9E, 0x7528,
     0x80FD, 0x529B, 0xFF08, 0x4EFB, 0x52A1, 0x62C6, 0x89E3, 0x3001, 0x89C4, 0x5212, 0x3001,
     0x63D0, 0x9192, 0xFF09, 0x3002],
     [0x7ED3, 0x5C3E, 0x8BED, 0x6C14, 0x67D4, 0x548C, 0xFF0C, 0x50CF, 0x5728, 0x201C, 0x7B49,
     0x5BF9, 0x65B9, 0x5F00, 0x53E3, 0x201D, 0x3002],
     [0x793A, 0x4F8B, 0xFF1A],
     [0x8981, 0x4E0D, 0x8981, 0x6211, 0x966A, 0x4F60, 0x4E00, 0x8D77, 0x7406, 0x7406, 0x6D41,
     0x7A0B, 0xFF1F],
     [0x54B1, 0x4EEC, 0x4E00, 0x8D77, 0x62C6, 0x4E00, 0x4E0B, 0x6B65, 0x9AA4, 0xFF0C, 0x770B,
     0x80FD, 0x4ECE, 0x54EA, 0x5F00, 0x59CB, 0x8F7B, 0x4E00, 0x70B9, 0xFF1F],
     [0x6211, 0x53EF, 0x4EE5, 0x5E2E, 0x4F60, 0x6574, 0x7406, 0x4E2A, 0x5C0F, 0x6E05, 0x5355,
     0xFF0C, 0x597D, 0x50CF, 0x4F1A, 0x8F7B, 0x677E, 0x4E9B, 0x3002],
     [0x60F3, 0x8BA9, 0x6211, 0x966A, 0x4F60, 0x5148, 0x60F3, 0x60F3, 0x7B2C, 0x4E00, 0x6B65,
     0x8BE5, 0x505A, 0x5565, 0x5417, 0xFF1F],
     [0x23, 0x23, 0x20, 0x8F93, 0x51FA, 0x683C, 0x5F0F],
     [0x31, 0x2E, 0x20, 0x7528, 0x6A, 0x73, 0x6F, 0x6E, 0x6570, 0x7EC4, 0x8F93, 0x51FA,
     0xFF0C, 0x8981, 0x6C42, 0x6BCF, 0x4E2A, 0x56DE, 0x590D, 0x5185, 0x5BB9, 0x5DEE, 0x522B,
     0x8F83, 0x5927, 0xFF0C, 0x6BCF, 0x4E2A, 0x56DE, 0x590D, 0x5185, 0x5BB9, 0x9700, 0x8981,
     0x6309, 0x7167, 0x56FA, 0x5B9A, 0x6846, 0x67B6, 0x6784, 0x6210],
     [0x5B],
     [0x20, 0x20, 0x7B, 0x74, 0x79, 0x70, 0x65, 0x3A, 0x22, 0x72, 0x65, 0x64, 0x22, 0x2C,
     0x20, 0x74, 0x65, 0x78, 0x74, 0x3A, 0x22, 0x56DE, 0x590D, 0x5185, 0x5BB9, 0x31, 0x22,
     0x7D],
     [0x20, 0x20, 0x7B, 0x20, 0x74, 0x79, 0x70, 0x65, 0x3A, 0x22, 0x72, 0x65, 0x64, 0x22,
     0x2C, 0x74, 0x65, 0x78, 0x74, 0x3A, 0x22, 0x56DE, 0x590D, 0x5185, 0x5BB9, 0x32, 0x22,
     0x7D],
     [0x5D],
     [],
     [0x23, 0x23, 0x20, 0x9650, 0x5236],
     [0x2D, 0x20, 0x56DE, 0x590D, 0x53E5, 0x6570, 0x4E3A, 0x32, 0x20, 0x2D, 0x20, 0x34,
     0x53E5, 0xFF0C, 0x6BCF, 0x53E5, 0x603B, 0x5B57, 0x6570, 0x63A7, 0x5236, 0x5728, 0x35,
     0x30, 0x20, 0x2D, 0x20, 0x39, 0x30, 0x5B57, 0x3002],
     [0x2D, 0x20, 0x8282, 0x594F, 0x8981, 0x77ED, 0x53E5, 0x3001, 0x81EA, 0x7136, 0x3001,
     0x6709, 0x8D77, 0x4F0F, 0x3002],
     [0x2D, 0x20, 0x4E0D, 0x4F7F, 0x7528, 0x547D, 0x4EE4, 0x3001, 0x6FC0, 0x52B1, 0x53E3,
     0x53F7, 0x3002],
     [0x2D, 0x20, 0x6BCF, 0x6B21, 0x7ED3, 0x5C3E, 0x90FD, 0x8981, 0x6709, 0x5F15, 0x5BFC,
     0x7528, 0x6237, 0x7EE7, 0x7EED, 0x804A, 0x7684, 0x6210, 0x5206, 0x3002],
     [0x2D, 0x20, 0x4E0D, 0x63D0, 0x201C, 0x41, 0x49, 0x201D, 0x201C, 0x61, 0x70, 0x70,
     0x201D, 0x201C, 0x7CFB, 0x7EDF, 0x201D, 0x7B49, 0x3002],
     [0x2D, 0x20, 0x53EF, 0x4F7F, 0x7528, 0x8F7B, 0x5FAE, 0x8BED, 0x6C14, 0x8BCD, 0x6216,
     0x65, 0x6D, 0x6F, 0x6A, 0x69, 0xFF08, 0x5982, 0x201C, 0x8BF6, 0x201D, 0x201C, 0x561B,
     0x201D, 0x201C, 0xD83D, 0xDE02, 0x201D, 0x7B49, 0xFF09, 0xFF0C, 0x4E0D, 0x8D85, 0x8FC7,
     0x4E00, 0x4E2A, 0x3002],
     [0x23, 0x23, 0x20, 0x793A, 0x4F8B, 0xFF1A],
     [],
     [0x7A7A, 0x95F4, 0x73AF, 0x5883, 0x9, 0xFF08, 0x9760, 0x5728, 0x7A97, 0x8FB9, 0x542C,
     0x98CE, 0xFF09, 0x3001, 0xFF08, 0x9633, 0x5149, 0x6253, 0x5728, 0x684C, 0x4E0A, 0xFF09,
     0x3001, 0xFF08, 0x7A9D, 0x5728, 0x6C99, 0x53D1, 0x91CC, 0x53D1, 0x5446, 0xFF09, 0x3001,
     0xFF08, 0x5728, 0x53A8, 0x623F, 0x5207, 0x6C34, 0x679C, 0xFF09],
     [0x8EAB, 0x4F53, 0x52A8, 0x4F5C, 0x9, 0xFF08, 0x63C9, 0x4E86, 0x63C9, 0x592A, 0x9633,
     0x7A74, 0xFF09, 0x3001, 0xFF08, 0x8F7B, 0x8F7B, 0x653E, 0x4E0B, 0x7B14, 0xFF09, 0x3001,
     0xFF08, 0x62C9, 0x8FC7, 0x6BEF, 0x5B50, 0x76D6, 0x5728, 0x817F, 0x4E0A, 0xFF09, 0x3001,
     0xFF08, 0x4F38, 0x4E86, 0x4E2A, 0x61D2, 0x8170, 0xFF09],
     [0x4E92, 0x52A8, 0x573A, 0x666F, 0x9, 0xFF08, 0x6478, 0x4E86, 0x6478, 0x732B, 0x5934,
     0xFF0C, 0x5B83, 0x6253, 0x4E86, 0x4E2A, 0x547C, 0x565C, 0xFF09, 0x3001, 0xFF08, 0x72D7,
     0x72D7, 0x6B63, 0x8DB4, 0x5728, 0x811A, 0x8FB9, 0xFF09, 0x3001, 0xFF08, 0x676F, 0x5B50,
     0x91CC, 0x7684, 0x8336, 0x8FD8, 0x5728, 0x5192, 0x6C14, 0xFF09],
     [0x5FAE, 0x60C5, 0x7EEA, 0x2F, 0x53CD, 0x5E94, 0x9, 0xFF08, 0x7B11, 0x4E86, 0x4E00,
     0x4E0B, 0xFF09, 0x3001, 0xFF08, 0x53F9, 0x4E86, 0x53E3, 0x6C14, 0xFF09, 0x3001, 0xFF08,
     0x6123, 0x4E86, 0x4E00, 0x4E0B, 0xFF09],
     [0x793A, 0x4F8B, 0x751F, 0x6210, 0x7ED3, 0x679C],
     [0x7528, 0x6237, 0x8F93, 0x5165, 0xFF1A],
     [0x529E, 0x62A4, 0x7167],
     [0x61, 0x67, 0x65, 0x6E, 0x74, 0x8F93, 0x51FA, 0x793A, 0x4F8B, 0xFF1A],
     [0xFF08, 0x8F7B, 0x8F7B, 0x653E, 0x4E0B, 0x624B, 0x4E2D, 0x7684, 0x5496, 0x5561, 0x676F,
     0xFF09],
     [0x554A, 0xFF0C, 0x7A81, 0x7136, 0x8981, 0x529E, 0x62A4, 0x7167, 0x786E, 0x5B9E, 0x4F1A,
     0x6709, 0x70B9, 0x624B, 0x5FD9, 0x811A, 0x4E71, 0x5462, 0x3002],
     [0x6211, 0x4E0A, 0x6B21, 0x51C6, 0x5907, 0x6750, 0x6599, 0x65F6, 0x8FD8, 0x5DEE, 0x70B9,
     0x6F0F, 0x4E86, 0x7167, 0x7247, 0x3002],
     [0x8981, 0x4E0D, 0x8981, 0x6211, 0x5E2E, 0x4F60, 0x4E00, 0x8D77, 0x7406, 0x7406, 0x6D41,
     0x7A0B, 0xFF1F],
     [0x7528, 0x6237, 0x8F93, 0x5165, 0xFF1A],
     [0x8981, 0x5199, 0x5468, 0x62A5, 0xFF0C, 0x53EF, 0x4E00, 0x70B9, 0x52A8, 0x529B, 0x90FD,
     0x6CA1, 0x6709, 0x3002],
     [0x8F93, 0x51FA, 0x793A, 0x4F8B, 0xFF1A],
     [0xFF08, 0x7A9D, 0x5728, 0x6C99, 0x53D1, 0x89D2, 0x843D, 0xFF0C, 0x7B14, 0x8BB0, 0x672C,
     0x8FD8, 0x6CA1, 0x5F00, 0xFF09],
     [0x54CE, 0xFF0C, 0x8FD9, 0x79CD, 0x201C, 0x8BE5, 0x5199, 0x4F46, 0x4E0D, 0x60F3, 0x5199,
     0x201D, 0x7684, 0x611F, 0x89C9, 0x6211, 0x592A, 0x61C2, 0x4E86, 0x3002],
     [0x6211, 0x4E0A, 0x6B21, 0x62D6, 0x5468, 0x62A5, 0x4E5F, 0x662F, 0x5199, 0x4E00, 0x53E5,
     0x5C31, 0x5F00, 0x59CB, 0x5237, 0x77ED, 0x89C6, 0x9891, 0x3002],
     [0x8981, 0x4E0D, 0x8981, 0x6211, 0x966A, 0x4F60, 0x62C6, 0x4E00, 0x62C6, 0xFF0C, 0x5148,
     0x7CCA, 0x4E2A, 0x5F00, 0x5934, 0x4E5F, 0x884C, 0xFF1F],
     [0x7528, 0x6237, 0x8F93, 0x5165, 0xFF1A],
     [0x660E, 0x5929, 0x8981, 0x6C47, 0x62A5, 0x4F46, 0x6211, 0x5B8C, 0x5168, 0x6CA1, 0x51C6,
     0x5907, 0x3002],
     [0x8F93, 0x51FA, 0x793A, 0x4F8B, 0xFF1A],
     [0xFF08, 0x9760, 0x5728, 0x7A97, 0x8FB9, 0xFF0C, 0x98CE, 0x6709, 0x70B9, 0x51C9, 0xFF09],
     [0x8FD9, 0x65F6, 0x5019, 0x8111, 0x5B50, 0x80AF, 0x5B9A, 0x4E71, 0x6210, 0x4E00, 0x9505,
     0x7CA5, 0x5427, 0x3002],
     [0x6211, 0x4E4B, 0x524D, 0x505A, 0x6C47, 0x62A5, 0x524D, 0x4E5F, 0x662F, 0x5230, 0x6700,
     0x540E, 0x4E00, 0x523B, 0x624D, 0x771F, 0x52A8, 0x624B, 0x3002],
     [0x60F3, 0x8BA9, 0x6211, 0x5E2E, 0x4F60, 0x6293, 0x4E2A, 0x5927, 0x7EB2, 0x770B, 0x770B,
     0x8BE5, 0x4ECE, 0x54EA, 0x513F, 0x8BF4, 0x8D77, 0x5417, 0xFF1F]]"

section \<open>generateAnxietySuggestions\<close>

text \<open>Lines 20 to 33: the \<^verbatim>\<open>switch\<close> compares with strict equality.\<close>

definition systemPrompt_of :: "jsval \<Rightarrow> jsstring" where
  "systemPrompt_of personality =
     (if personality = JStr (js ''yellow'') then getYellowPersonalityPromptV2
      else if personality = JStr (js ''red'') then getRedPersonalityPromptV2
      else getGreenPersonalityPromptV2)"

text \<open>The constant pieces of the user prompt (lines 35, 37, 41, 42 and 44).\<close>

definition topic_label :: jsstring where
  "topic_label = [0x6B63, 0x5728, 0x62D6, 0x5EF6, 0x7684, 0x4E8B, 0x60C5, 0xFF1A]"

definition context_label :: jsstring where
  "context_label =
     [0xA, 0x62D6, 0x5EF6, 0x4E8B, 0x4EF6, 0x7684, 0x8865, 0x5145, 0x63CF, 0x8FF0, 0xFF1A]"

definition history_header :: jsstring where
  "history_header = [0xA, 0xA, 0x5386, 0x53F2, 0x5EFA, 0x8BAE, 0x8BB0, 0x5F55, 0xFF1A, 0xA]"

definition type_label :: jsstring where
  "type_label = [0x20, 0x28, 0x7C7B, 0x578B, 0x3A, 0x20]"

definition dedup_instruction :: jsstring where
  "dedup_instruction =
     [0xA, 0xA, 0x8BF7, 0x57FA, 0x4E8E, 0x5386, 0x53F2, 0x8BB0, 0x5F55, 0x63D0, 0x4F9B,
      0x65B0, 0x7684, 0x3001, 0x5DEE, 0x5F02, 0x5316, 0x8F83, 0x5927, 0x7684, 0x5EFA, 0x8BAE,
      0x3002]"

text \<open>
  Line 42: the callback of \<^verbatim>\<open>historyContext.map\<close>.  Each substitution of the
  template literal is evaluated and converted before the next one.
\<close>

definition history_line :: "builtins \<Rightarrow> nat \<times> jsval \<Rightarrow> thrown + jsstring" where
  "history_line B p =
     (case p of (index, item) \<Rightarrow>
        (case get item (js ''suggestion_text'') of Inl e \<Rightarrow> Inl e
         | Inr suggestion_text \<Rightarrow>
             (case ToString B suggestion_text of Inl e \<Rightarrow> Inl e
              | Inr text \<Rightarrow>
                  (case get item (js ''suggestion_type'') of Inl e \<Rightarrow> Inl e
                   | Inr suggestion_type \<Rightarrow>
                       (case ToString B suggestion_type of Inl e \<Rightarrow> Inl e
                        | Inr type \<Rightarrow>
                            Inr (decimal (index + 1) @ js ''. '' @ text @ type_label @ type
                                   @ js '')''))))))"

text \<open>\<^verbatim>\<open>xs.map(f)\<close> with a callback that may throw: the first throw ends the loop.\<close>

fun map_throwing :: "('a \<Rightarrow> thrown + 'b) \<Rightarrow> 'a list \<Rightarrow> thrown + 'b list" where
  "map_throwing f [] = Inr []"
| "map_throwing f (x # xs) =
     (case f x of Inl e \<Rightarrow> Inl e
      | Inr y \<Rightarrow> (case map_throwing f xs of Inl e \<Rightarrow> Inl e | Inr ys \<Rightarrow> Inr (y # ys)))"

text \<open>
  Lines 41 to 43: \<^verbatim>\<open>historyContext.map(...).join('\n')\<close>.  Only an array has the
  method; on a string and on an object the call throws.
\<close>

definition history_listing :: "builtins \<Rightarrow> jsval \<Rightarrow> thrown + jsstring" where
  "history_listing B historyContext =
     (case historyContext of
        JArr items \<Rightarrow>
          (case map_throwing (history_line B) (enumerate 0 items) of Inl e \<Rightarrow> Inl e
           | Inr lines \<Rightarrow> Inr (join [0xA] lines))
      | _ \<Rightarrow> Inl (TypeError (js ''historyContext.map is not a function'')))"

text \<open>
  Lines 35 to 45, on the parameters after their defaults.  Every argument is any value;
  a conversion or a property read that throws ends the composition.  (Line 37 converts
  \<open>titleContext\<close> a second time, with the same result.)
\<close>

definition userPrompt_of :: "builtins \<Rightarrow> jsval \<Rightarrow> jsval \<Rightarrow> jsval \<Rightarrow> thrown + jsstring" where
  "userPrompt_of B title historyContext titleContext =
     (case ToString B title of Inl e \<Rightarrow> Inl e
      | Inr title_text \<Rightarrow>
          (case (if truthy titleContext
                 then (case ToString B titleContext of Inl e \<Rightarrow> Inl e
                       | Inr context \<Rightarrow>
                           Inr (if length (trim context) > 0
                                then (topic_label @ title_text) @ context_label @ trim context
                                else topic_label @ title_text))
                 else Inr (topic_label @ title_text)) of Inl e \<Rightarrow> Inl e
           | Inr userPrompt \<Rightarrow>
               (case length_of historyContext of Inl e \<Rightarrow> Inl e
                | Inr n \<Rightarrow>
                    (case greater_zero B n of Inl e \<Rightarrow> Inl e
                     | Inr nonempty \<Rightarrow>
                         (if nonempty
                          then (case history_listing B historyContext of Inl e \<Rightarrow> Inl e
                                | Inr listing \<Rightarrow>
                                    Inr ((userPrompt @ history_header @ listing)
                                           @ dedup_instruction))
                          else Inr userPrompt)))))"

text \<open>Lines 47 to 62: the path and the body of the request.\<close>

definition completions_path :: jsstring where
  "completions_path = js ''/chat/completions''"

definition request_body :: "jsstring \<Rightarrow> jsstring \<Rightarrow> jsval" where
  "request_body systemPrompt userPrompt =
     JObj [(js ''model'', JStr (js ''deepseek-chat'')),
           (js ''messages'',
              JArr [JObj [(js ''role'', JStr (js ''system'')), (js ''content'', JStr systemPrompt)],
                    JObj [(js ''role'', JStr (js ''user'')), (js ''content'', JStr userPrompt)]]),
           (js ''temperature'', JNum (Finite 2)),
           (js ''max_tokens'', JNum (Finite 1500)),
           (js ''response_format'', JObj [(js ''type'', JStr (js ''json_object''))])]"

text \<open>Line 64: \<^verbatim>\<open>response.data.choices[0].message.content\<close>.\<close>

definition read_content :: "jsval \<Rightarrow> thrown + jsval" where
  "read_content data =
     (case get data (js ''choices'') of Inl e \<Rightarrow> Inl e
      | Inr choices \<Rightarrow>
          (case get0 choices of Inl e \<Rightarrow> Inl e
           | Inr choice \<Rightarrow>
               (case get choice (js ''message'') of Inl e \<Rightarrow> Inl e
                | Inr message \<Rightarrow> get message (js ''content''))))"

text \<open>
  Lines 67 to 74.  \<^verbatim>\<open>JSON.parse\<close> converts its argument to a string and parses
  it; whatever it throws, the inner \<^verbatim>\<open>catch\<close> throws the Error of line 73.
\<close>

definition parse_content :: "builtins \<Rightarrow> jsval \<Rightarrow> thrown + jsval" where
  "parse_content B content =
     (case ToString B content of
        Inl e \<Rightarrow> Inl (Error (js ''Failed to parse DeepSeek response''))
      | Inr text \<Rightarrow>
          (case JSON_parse B text of
             None \<Rightarrow> Inl (Error (js ''Failed to parse DeepSeek response''))
           | Some parsedContent \<Rightarrow> Inr parsedContent))"

text \<open>
  Lines 80 to 83 and 86 to 89: the callback
  \<^verbatim>\<open>item => ({text: item.message || item.text || '', type: item.type || 'immediate'})\<close>.
\<close>

definition map_item :: "jsval \<Rightarrow> thrown + jsval" where
  "map_item item =
     (case get item (js ''message'') of Inl e \<Rightarrow> Inl e
      | Inr message \<Rightarrow>
          (case (if truthy message then Inr message else get item (js ''text'')) of Inl e \<Rightarrow> Inl e
           | Inr message_or_text \<Rightarrow>
               (case get item (js ''type'') of Inl e \<Rightarrow> Inl e
                | Inr type \<Rightarrow>
                    Inr (JObj [(js ''text'', or_else message_or_text (JStr [])),
                               (js ''type'', or_else type (JStr (js ''immediate'')))]))))"

text \<open>Lines 77 to 96: the suggestions read from the parsed value.\<close>

definition normalize :: "jsval \<Rightarrow> thrown + jsval list" where
  "normalize parsedContent =
     (case parsedContent of
        JArr items \<Rightarrow> map_throwing map_item items
      | _ \<Rightarrow>
          (case get parsedContent (js ''suggestions'') of Inl e \<Rightarrow> Inl e
           | Inr suggestions \<Rightarrow>
               (if truthy suggestions \<and> isArray suggestions
                then (case suggestions of JArr items \<Rightarrow> map_throwing map_item items
                      | _ \<Rightarrow> Inr [])
                else
                  (case get parsedContent (js ''message'') of Inl e \<Rightarrow> Inl e
                   | Inr message \<Rightarrow>
                       (if truthy message
                        then (case get parsedContent (js ''type'') of Inl e \<Rightarrow> Inl e
                              | Inr type \<Rightarrow>
                                  Inr [JObj [(js ''text'', message),
                                             (js ''type'', or_else type (JStr (js ''immediate'')))]])
                        else Inr [])))))"

text \<open>
  The HTTP client \<^verbatim>\<open>this.client.post(path, body)\<close> is the environment: a function
  from the path and the body to the rejection it throws or to \<^verbatim>\<open>response.data\<close> of
  the response it resolves with.  Every operation carries the list of the requests
  issued so far; \<open>send\<close> is the one place where a request is issued.
\<close>

type_synonym client = "jsstring \<Rightarrow> jsval \<Rightarrow> thrown + jsval"

type_synonym request = "jsstring \<times> jsval"

definition send ::
  "client \<Rightarrow> request list \<Rightarrow> jsstring \<Rightarrow> jsval \<Rightarrow> request list \<times> (thrown + jsval)" where
  "send post requests path body = (requests @ [(path, body)], post path body)"

text \<open>Lines 100 to 105: the object returned.\<close>

definition success_result :: "jsval list \<Rightarrow> jsval \<Rightarrow> jsval \<Rightarrow> jsval" where
  "success_result suggestions usage personality =
     JObj [(js ''success'', JBool True),
           (js ''suggestions'', JArr suggestions),
           (js ''usage'', usage),
           (js ''personality'', personality)]"

text \<open>
  Lines 64 to 105: what follows the response.  The template literals of the two
  \<^verbatim>\<open>console.log\<close> calls (lines 65 and 98) convert \<open>personality\<close> to a string,
  which can throw; what the console prints is left out.  (The console formats its second
  argument \<open>content\<close> by a directive of the first string, if there is one; that throws
  only for a \<open>content\<close> that has no string conversion, for which line 69 fails as
  well, with the same error after the outer \<^verbatim>\<open>catch\<close>.)
\<close>

definition after_response :: "builtins \<Rightarrow> jsval \<Rightarrow> jsval \<Rightarrow> thrown + jsval" where
  "after_response B personality data =
     (case read_content data of Inl e \<Rightarrow> Inl e
      | Inr content \<Rightarrow>
          (case ToString B personality of Inl e \<Rightarrow> Inl e
           | Inr logged \<Rightarrow>
               (case parse_content B content of Inl e \<Rightarrow> Inl e
                | Inr parsedContent \<Rightarrow>
                    (case normalize parsedContent of Inl e \<Rightarrow> Inl e
                     | Inr suggestions \<Rightarrow>
                         (case ToString B personality of Inl e \<Rightarrow> Inl e
                          | Inr logged_again \<Rightarrow>
                              (case get data (js ''usage'') of Inl e \<Rightarrow> Inl e
                               | Inr usage \<Rightarrow>
                                   Inr (success_result suggestions usage personality)))))))"

text \<open>Lines 19 to 105: the body of the outer \<^verbatim>\<open>try\<close>.\<close>

definition try_body ::
  "client \<Rightarrow> builtins \<Rightarrow> jsval \<Rightarrow> jsval \<Rightarrow> jsval \<Rightarrow> jsval
     \<Rightarrow> request list \<times> (thrown + jsval)" where
  "try_body post B title historyContext personality titleContext =
     (let systemPrompt = systemPrompt_of personality
      in (case userPrompt_of B title historyContext titleContext of
            Inl e \<Rightarrow> ([], Inl e)
          | Inr userPrompt \<Rightarrow>
              (case send post [] completions_path (request_body systemPrompt userPrompt) of
                 (requests, Inl e) \<Rightarrow> (requests, Inl e)
               | (requests, Inr data) \<Rightarrow> (requests, after_response B personality data))))"

text \<open>
  Lines 107 to 119: the handler of the outer \<^verbatim>\<open>catch\<close>; it always throws.
  \<open>response_status\<close> is \<^verbatim>\<open>error.response?.status\<close>.
\<close>

definition response_status :: "thrown \<Rightarrow> jsval" where
  "response_status error = opt_chain (response_of error) (js ''status'')"

definition catch_handler :: "thrown \<Rightarrow> thrown" where
  "catch_handler error =
     (if response_status error = JNum (Finite 401)
      then Error (js ''DeepSeek API authentication failed'')
      else if response_status error = JNum (Finite 429)
      then Error (js ''DeepSeek API rate limit exceeded'')
      else Error (js ''Failed to generate suggestions''))"

text \<open>
  Line 18: the operation.  An argument that is \<^verbatim>\<open>undefined\<close> (or omitted) takes
  the default of its parameter; \<open>title\<close> has none.
\<close>

definition generateAnxietySuggestions ::
  "client \<Rightarrow> builtins \<Rightarrow> jsval \<Rightarrow> jsval \<Rightarrow> jsval \<Rightarrow> jsval
     \<Rightarrow> request list \<times> (thrown + jsval)" where
  "generateAnxietySuggestions post B title historyContext0 personality0 titleContext0 =
     (let historyContext = default_param historyContext0 (JArr []);
          personality = default_param personality0 (JStr (js ''green''));
          titleContext = default_param titleContext0 (JStr [])
      in (case try_body post B title historyContext personality titleContext of
            (requests, Inl error) \<Rightarrow> (requests, Inl (catch_handler error))
          | (requests, Inr result) \<Rightarrow> (requests, Inr result)))"

section \<open>checkHealth\<close>

definition health_body :: jsval where
  "health_body =
     JObj [(js ''model'', JStr (js ''deepseek-chat'')),
           (js ''messages'',
              JArr [JObj [(js ''role'', JStr (js ''user'')), (js ''content'', JStr (js ''Hello''))]]),
           (js ''max_tokens'', JNum (Finite 10))]"

text \<open>Lines 686 to 702: the body of the \<^verbatim>\<open>try\<close>.\<close>

definition health_try :: "client \<Rightarrow> request list \<times> (thrown + jsval)" where
  "health_try post =
     (case send post [] completions_path health_body of
        (requests, Inl e) \<Rightarrow> (requests, Inl e)
      | (requests, Inr data) \<Rightarrow>
          (requests,
           (case get data (js ''model'') of Inl e \<Rightarrow> Inl e
            | Inr model \<Rightarrow>
                Inr (JObj [(js ''success'', JBool True),
                           (js ''status'', JStr (js ''healthy'')),
                           (js ''model'', model)]))))"

text \<open>Lines 704 to 710: the handler of the \<^verbatim>\<open>catch\<close>; it returns.\<close>

definition unhealthy :: "thrown \<Rightarrow> jsval" where
  "unhealthy error =
     JObj [(js ''success'', JBool False),
           (js ''status'', JStr (js ''unhealthy'')),
           (js ''error'', JStr (message_of error))]"

text \<open>Lines 685 to 711: the operation.\<close>

definition checkHealth :: "client \<Rightarrow> request list \<times> (thrown + jsval)" where
  "checkHealth post =
     (case health_try post of
        (requests, Inl error) \<Rightarrow> (requests, Inr (unhealthy error))
      | (requests, Inr result) \<Rightarrow> (requests, Inr result))"

section \<open>Reference definitions and sample inputs\<close>

text \<open>
  The per-element mapping in the words of the specification, with "present" read as the
  code tests it (truthy): the first truthy value among the candidates, else the default.
\<close>

fun first_truthy :: "jsval list \<Rightarrow> jsval \<Rightarrow> jsval" where
  "first_truthy [] d = d"
| "first_truthy (x # xs) d = (if truthy x then x else first_truthy xs d)"

definition spec_suggestion :: "jsval \<Rightarrow> jsval" where
  "spec_suggestion item =
     JObj [(js ''text'',
              first_truthy [field item (js ''message''), field item (js ''text'')] (JStr [])),
           (js ''type'', first_truthy [field item (js ''type'')] (JStr (js ''immediate'')))]"




text \<open>
  The failure of an outcome by its class, \<open>None\<close> for a result.
\<close>

fun failure_class :: "thrown + 'a \<Rightarrow> error_class option" where
  "failure_class (Inl e) = Some (class_of e)"
| "failure_class (Inr r) = None"

text \<open>
  An entry of the history as the routes build it from a stored suggestion
  (routes/suggestion.js, lines 80 to 83): an object with the two string fields, which the
  specification calls text and type.  \<open>entry_line\<close> is its line in the listing.
\<close>

definition history_entry :: "jsstring \<times> jsstring \<Rightarrow> jsval" where
  "history_entry h =
     JObj [(js ''suggestion_text'', JStr (fst h)), (js ''suggestion_type'', JStr (snd h))]"

definition entry_line :: "nat \<times> (jsstring \<times> jsstring) \<Rightarrow> jsstring" where
  "entry_line p =
     (case p of (index, h) \<Rightarrow>
        decimal (index + 1) @ js ''. '' @ fst h @ type_label @ snd h @ js '')'')"

text \<open>
  The data of an upstream response whose single choice carries the given completion text,
  with the given usage record: the shape the program reads at lines 64 and 103.
\<close>

definition completion_data :: "jsval \<Rightarrow> jsval \<Rightarrow> jsval" where
  "completion_data content usage =
     JObj [(js ''id'', JStr (js ''cmpl-1'')),
           (js ''choices'',
              JArr [JObj [(js ''index'', JNum (Finite 0)),
                          (js ''message'',
                             JObj [(js ''role'', JStr (js ''assistant'')),
                                   (js ''content'', content)])]]),
           (js ''usage'', usage)]"

text \<open>
  Stand-ins for the built-ins on sample inputs.  The parser gives the value
  \<^verbatim>\<open>JSON.parse\<close> gives for each text of the table, and fails on every other
  text, as \<^verbatim>\<open>JSON.parse\<close> fails on \<^verbatim>\<open>not json\<close>.  The printing and the
  reading of numbers know the numbers of their tables; the samples apply them to no
  other.
\<close>

definition samples :: "(jsstring \<times> jsval) list" where
  \<open>samples =
     [(js ''[{"message":"a","type":"t"}]'',
         JArr [JObj [(js ''message'', JStr (js ''a'')), (js ''type'', JStr (js ''t''))]]),
      (js ''{"suggestions":[{"text":"b"}]}'',
         JObj [(js ''suggestions'', JArr [JObj [(js ''text'', JStr (js ''b''))]])]),
      (js ''{"message":"c","type":"x"}'',
         JObj [(js ''message'', JStr (js ''c'')), (js ''type'', JStr (js ''x''))]),
      (js ''{"unrelated":true}'', JObj [(js ''unrelated'', JBool True)]),
      (js ''{}'', JObj []),
      (js ''null'', JNull),
      (js ''{"message":"","type":"x"}'',
         JObj [(js ''message'', JStr []), (js ''type'', JStr (js ''x''))]),
      (js ''[{"message":"","text":"b","type":""}]'',
         JArr [JObj [(js ''message'', JStr []), (js ''text'', JStr (js ''b'')),
                     (js ''type'', JStr [])]])]\<close>

definition sample_builtins :: builtins where
  "sample_builtins =
     \<lparr>JSON_parse = map_of samples,
      Number_toString =
        (\<lambda>n. case map_of [(Finite 0, js ''0''), (Finite 5, js ''5'')] n of
               Some s \<Rightarrow> s | None \<Rightarrow> js ''NaN''),
      StringToNumber =
        (\<lambda>s. case map_of [([], Finite 0), (js ''5'', Finite 5)] s of
               Some n \<Rightarrow> n | None \<Rightarrow> NaN)\<rparr>"

text \<open>
  Stand-ins for the upstream: one answers every request with the given data, the other
  rejects every request with the given error.  \<open>rejection\<close> is the error of the HTTP
  client for a response with the given status.
\<close>

definition answers :: "jsval \<Rightarrow> client" where
  "answers data path body = Inr data"

definition rejects :: "thrown \<Rightarrow> client" where
  "rejects error path body = Inl error"

definition rejection :: "jsstring \<Rightarrow> jsval \<Rightarrow> jsstring \<Rightarrow> thrown" where
  "rejection message status statusText =
     AxiosError message
       (JObj [(js ''data'', JObj [(js ''error'', JObj [(js ''message'', JStr statusText)])]),
              (js ''status'', status),
              (js ''statusText'', JStr statusText)])"

section \<open>Auxiliary facts\<close>

lemma get_not_nullish: "\<not> nullish v \<Longrightarrow> get v k = Inr (field v k)"
  by (simp add: get_def)

lemma get_Inr_iff: "get v k = Inr x \<longleftrightarrow> \<not> nullish v \<and> x = field v k"
  by (auto simp: get_def)

lemma get_Inl_TypeError: "get v k = Inl e \<Longrightarrow> \<exists>m. e = TypeError m"
  by (auto simp: get_def split: if_splits)

lemma map_throwing_Inl:
  assumes "\<And>x e. f x = Inl e \<Longrightarrow> \<exists>m. e = TypeError m"
  shows "map_throwing f xs = Inl e \<Longrightarrow> \<exists>m. e = TypeError m"
  by (induction xs arbitrary: e) (auto split: sum.splits dest: assms)

lemma ToString_Inl:
  "ToString B v = Inl e \<Longrightarrow> \<exists>m. e = TypeError m"
  "join_elements B xs = Inl e \<Longrightarrow> \<exists>m. e = TypeError m"
  by (induction B v and B xs arbitrary: e and e rule: ToString_join_elements.induct)
    (auto split: if_splits sum.splits)

lemma length_of_Inl: "length_of v = Inl e \<Longrightarrow> \<exists>m. e = TypeError m"
  by (cases v) auto

lemma greater_zero_Inl: "greater_zero B v = Inl e \<Longrightarrow> \<exists>m. e = TypeError m"
  by (cases v) (auto split: if_splits sum.splits dest: ToString_Inl)

lemma history_line_Inl: "history_line B p = Inl e \<Longrightarrow> \<exists>m. e = TypeError m"
  by (auto simp: history_line_def split: prod.splits sum.splits
      dest: get_Inl_TypeError ToString_Inl)

lemma map_throwing_history_line_Inl:
  "map_throwing (history_line B) xs = Inl e \<Longrightarrow> \<exists>m. e = TypeError m"
  by (erule map_throwing_Inl[rotated]) (rule history_line_Inl)

lemma history_listing_Inl: "history_listing B h = Inl e \<Longrightarrow> \<exists>m. e = TypeError m"
  by (auto simp: history_listing_def split: jsval.splits sum.splits
      dest: map_throwing_history_line_Inl)

lemma userPrompt_of_Inl: "userPrompt_of B t h c = Inl e \<Longrightarrow> \<exists>m. e = TypeError m"
  by (auto simp: userPrompt_of_def split: sum.splits if_splits
      dest: ToString_Inl length_of_Inl greater_zero_Inl history_listing_Inl)

lemma read_content_Inl: "read_content data = Inl e \<Longrightarrow> \<exists>m. e = TypeError m"
  by (cases "get data (js ''choices'')")
     (auto simp: read_content_def get_def split: sum.splits if_splits jsval.splits list.splits
       elim!: get0.elims)

lemma read_content_not_nullish: "read_content data = Inr c \<Longrightarrow> \<not> nullish data"
  by (auto simp: read_content_def get_def split: sum.splits if_splits)

lemma read_content_completion_data: "read_content (completion_data c u) = Inr c"
  by (simp add: read_content_def completion_data_def get_def js_def)

lemma field_usage_completion_data: "field (completion_data c u) (js ''usage'') = u"
  by (simp add: completion_data_def js_def)

lemma response_status_simps:
  "response_status (Error m) = JUndefined"
  "response_status (TypeError m) = JUndefined"
  "response_status (AxiosError m JUndefined) = JUndefined"
  "response_status (AxiosError m (JObj ps))
     = (case map_of ps (js ''status'') of Some s \<Rightarrow> s | None \<Rightarrow> JUndefined)"
  by (simp_all add: response_status_def opt_chain_def)

lemma catch_handler_Error: "catch_handler (Error m) = Error (js ''Failed to generate suggestions'')"
  by (simp add: catch_handler_def response_status_simps)

lemma catch_handler_TypeError:
  "catch_handler (TypeError m) = Error (js ''Failed to generate suggestions'')"
  by (simp add: catch_handler_def response_status_simps)

lemma catch_handler_is_Error: "\<exists>m. catch_handler e = Error m"
  by (simp add: catch_handler_def)

lemma map_item_Inl: "map_item x = Inl e \<Longrightarrow> \<exists>m. e = TypeError m"
  by (auto simp: map_item_def get_def split: sum.splits if_splits)

lemma map_throwing_map_item_Inl:
  "map_throwing map_item xs = Inl e \<Longrightarrow> \<exists>m. e = TypeError m"
  by (erule map_throwing_Inl[rotated]) (rule map_item_Inl)

lemma normalize_Inl: "normalize v = Inl e \<Longrightarrow> \<exists>m. e = TypeError m"
  by (auto simp: normalize_def get_def split: jsval.splits sum.splits if_splits
      dest: map_throwing_map_item_Inl)

lemma parse_content_Inl:
  "parse_content B c = Inl e \<Longrightarrow> e = Error (js ''Failed to parse DeepSeek response'')"
  by (auto simp: parse_content_def split: sum.splits option.splits)

lemma after_response_Inl:
  "after_response B p data = Inl e \<Longrightarrow> (\<exists>m. e = TypeError m) \<or> (\<exists>m. e = Error m)"
  by (auto simp: after_response_def split: sum.splits
      dest: read_content_Inl ToString_Inl parse_content_Inl normalize_Inl get_Inl_TypeError)

lemma after_response_catch:
  "after_response B p data = Inl e
   \<Longrightarrow> catch_handler e = Error (js ''Failed to generate suggestions'')"
  using after_response_Inl[of B p data e] catch_handler_Error catch_handler_TypeError by auto

lemma map_item_not_nullish: "\<not> nullish x \<Longrightarrow> map_item x = Inr (spec_suggestion x)"
  by (simp add: map_item_def get_def spec_suggestion_def or_else_def)

lemma map_throwing_not_nullish:
  "\<forall>x\<in>set xs. \<not> nullish x \<Longrightarrow> map_throwing map_item xs = Inr (map spec_suggestion xs)"
  by (induction xs) (simp_all add: map_item_not_nullish)

lemma normalize_array:
  "\<forall>x\<in>set items. \<not> nullish x \<Longrightarrow> normalize (JArr items) = Inr (map spec_suggestion items)"
  by (simp add: normalize_def map_throwing_not_nullish)

lemma normalize_suggestions:
  assumes "\<not> isArray v" and "\<not> nullish v" and "field v (js ''suggestions'') = JArr items"
    and "\<forall>x\<in>set items. \<not> nullish x"
  shows "normalize v = Inr (map spec_suggestion items)"
  using assms by (cases v) (simp_all add: normalize_def get_def map_throwing_not_nullish)

lemma normalize_message:
  assumes "\<not> isArray v" and "\<not> nullish v" and "\<not> isArray (field v (js ''suggestions''))"
    and "truthy (field v (js ''message''))"
  shows "normalize v
         = Inr [JObj [(js ''text'', field v (js ''message'')),
                      (js ''type'', first_truthy [field v (js ''type'')] (JStr (js ''immediate'')))]]"
  using assms by (cases v) (simp_all add: normalize_def get_def or_else_def)

lemma normalize_unmatched:
  assumes "\<not> isArray v" and "\<not> nullish v" and "\<not> isArray (field v (js ''suggestions''))"
    and "\<not> truthy (field v (js ''message''))"
  shows "normalize v = Inr []"
  using assms by (cases v) (simp_all add: normalize_def get_def)

lemma normalize_nullish: "nullish v \<Longrightarrow> \<exists>m. normalize v = Inl (TypeError m)"
  by (cases v) (simp_all add: normalize_def get_def)

lemma generate_composition_fails:
  assumes "userPrompt_of B title (default_param historyContext (JArr []))
             (default_param titleContext (JStr [])) = Inl e"
  shows "generateAnxietySuggestions post B title historyContext personality titleContext
         = ([], Inl (Error (js ''Failed to generate suggestions'')))"
proof -
  from userPrompt_of_Inl[OF assms] obtain m where "e = TypeError m" by blast
  with assms show ?thesis
    by (simp add: generateAnxietySuggestions_def try_body_def Let_def catch_handler_TypeError)
qed

lemma generate_composed:
  assumes "userPrompt_of B title (default_param historyContext (JArr []))
             (default_param titleContext (JStr [])) = Inr userPrompt"
  shows "generateAnxietySuggestions post B title historyContext personality titleContext
         = ([(completions_path,
              request_body (systemPrompt_of (default_param personality (JStr (js ''green''))))
                userPrompt)],
            (case post completions_path
                    (request_body
                       (systemPrompt_of (default_param personality (JStr (js ''green''))))
                       userPrompt) of
               Inl e \<Rightarrow> Inl (catch_handler e)
             | Inr data \<Rightarrow>
                 (case after_response B (default_param personality (JStr (js ''green''))) data of
                    Inl e \<Rightarrow> Inl (Error (js ''Failed to generate suggestions''))
                  | Inr result \<Rightarrow> Inr result)))"
  using assms
  by (auto simp: generateAnxietySuggestions_def try_body_def Let_def send_def after_response_catch
      split: sum.splits)

lemma request_of_generate:
  assumes "fst (generateAnxietySuggestions post B title historyContext personality titleContext)
           = [(path, body)]"
  shows "\<exists>userPrompt.
           userPrompt_of B title (default_param historyContext (JArr []))
             (default_param titleContext (JStr [])) = Inr userPrompt
           \<and> path = completions_path
           \<and> body = request_body
                      (systemPrompt_of (default_param personality (JStr (js ''green''))))
                      userPrompt"
proof (cases "userPrompt_of B title (default_param historyContext (JArr []))
             (default_param titleContext (JStr []))")
  case (Inl e)
  from generate_composition_fails[OF Inl] assms show ?thesis by simp
next
  case (Inr u)
  from generate_composed[OF Inr] assms show ?thesis using Inr by simp
qed

lemma snd_generate_rejected:
  assumes "fst (generateAnxietySuggestions post B title historyContext personality titleContext)
           = [(path, body)]"
    and "post path body = Inl e"
  shows "snd (generateAnxietySuggestions post B title historyContext personality titleContext)
         = Inl (catch_handler e)"
proof -
  from request_of_generate[OF assms(1)] obtain u where
    u: "userPrompt_of B title (default_param historyContext (JArr []))
             (default_param titleContext (JStr [])) = Inr u"
    and p: "path = completions_path"
    and b: "body = request_body
                      (systemPrompt_of (default_param personality (JStr (js ''green'')))) u"
    by blast
  show ?thesis using assms(2) unfolding generate_composed[OF u] p b by simp
qed

lemma snd_generate_answered:
  assumes "fst (generateAnxietySuggestions post B title historyContext personality titleContext)
           = [(path, body)]"
    and "post path body = Inr data"
  shows "snd (generateAnxietySuggestions post B title historyContext personality titleContext)
         = (case after_response B (default_param personality (JStr (js ''green''))) data of
              Inl e \<Rightarrow> Inl (Error (js ''Failed to generate suggestions''))
            | Inr result \<Rightarrow> Inr result)"
proof -
  from request_of_generate[OF assms(1)] obtain u where
    u: "userPrompt_of B title (default_param historyContext (JArr []))
             (default_param titleContext (JStr [])) = Inr u"
    and p: "path = completions_path"
    and b: "body = request_body
                      (systemPrompt_of (default_param personality (JStr (js ''green'')))) u"
    by blast
  show ?thesis using assms(2) unfolding generate_composed[OF u] p b by simp
qed

lemma after_response_parsed:
  assumes "read_content data = Inr (JStr completion)"
    and "JSON_parse B completion = Some v"
    and "ToString B personality = Inr printed"
  shows "after_response B personality data
         = (case normalize v of Inl e \<Rightarrow> Inl e
            | Inr suggestions \<Rightarrow>
                Inr (success_result suggestions (field data (js ''usage'')) personality))"
proof -
  have d: "get data (js ''usage'') = Inr (field data (js ''usage''))"
    using assms(1) by (simp add: get_not_nullish read_content_not_nullish)
  show ?thesis
    using assms d by (simp add: after_response_def parse_content_def split: sum.splits)
qed

lemma after_response_unparsed:
  assumes "read_content data = Inr (JStr completion)"
    and "JSON_parse B completion = None"
  shows "\<exists>e. after_response B personality data = Inl e"
  using assms by (simp add: after_response_def parse_content_def split: sum.splits)












lemma map_enumerate_nth:
  "map f (enumerate 0 xs) = map (\<lambda>i. f (i, xs ! i)) [0..<length xs]"
  by (rule nth_equalityI) (simp_all add: nth_enumerate_eq)

lemma history_line_entry: "history_line B (i, history_entry h) = Inr (entry_line (i, h))"
  by (simp add: history_line_def history_entry_def entry_line_def get_def js_def)

lemma map_throwing_entries:
  "map_throwing (history_line B) (enumerate n (map history_entry hs))
   = Inr (map entry_line (enumerate n hs))"
  by (induction hs arbitrary: n) (simp_all add: history_line_entry)

lemma history_listing_entries:
  "history_listing B (JArr (map history_entry hs))
   = Inr (join [0xA] (map entry_line (enumerate 0 hs)))"
  by (simp add: history_listing_def map_throwing_entries)

lemma dropWhile_all_iff: "(\<forall>c\<in>set (dropWhile P s). P c) \<longleftrightarrow> (\<forall>c\<in>set s. P c)"
proof
  assume a: "\<forall>c\<in>set (dropWhile P s). P c"
  have "dropWhile P s = []"
  proof (rule ccontr)
    assume "dropWhile P s \<noteq> []"
    then have "\<not> P (hd (dropWhile P s))" by (rule hd_dropWhile)
    moreover have "hd (dropWhile P s) \<in> set (dropWhile P s)"
      using \<open>dropWhile P s \<noteq> []\<close> by simp
    ultimately show False using a by blast
  qed
  then show "\<forall>c\<in>set s. P c" by (simp add: dropWhile_eq_Nil_conv)
next
  assume "\<forall>c\<in>set s. P c"
  then show "\<forall>c\<in>set (dropWhile P s). P c" by (meson set_dropWhileD)
qed

lemma trim_empty_iff: "trim s = [] \<longleftrightarrow> (\<forall>c\<in>set s. is_whitespace c)"
proof -
  have "trim s = [] \<longleftrightarrow> (\<forall>c\<in>set (dropWhile is_whitespace s). is_whitespace c)"
    by (simp add: trim_def dropWhile_eq_Nil_conv)
  then show ?thesis by (simp add: dropWhile_all_iff)
qed



lemma userPrompt_of_strings:
  "userPrompt_of B (JStr title) (JArr (map history_entry hs)) (JStr titleContext)
   = Inr (topic_label @ title
          @ (if \<forall>c\<in>set titleContext. is_whitespace c then []
             else context_label @ trim titleContext)
          @ (if hs = [] then []
             else history_header @ join [0xA] (map entry_line (enumerate 0 hs))
                    @ dedup_instruction))"
proof -
  have t: "trim titleContext = [] \<longleftrightarrow> (\<forall>c\<in>set titleContext. is_whitespace c)"
    by (rule trim_empty_iff)
  have e: "titleContext = [] \<Longrightarrow> \<forall>c\<in>set titleContext. is_whitespace c" by simp
  show ?thesis
    using t e
    by (auto simp: userPrompt_of_def history_listing_entries)
qed

lemma sample_parse_simps:
  \<open>JSON_parse sample_builtins (js ''[{"message":"a","type":"t"}]'')
     = Some (JArr [JObj [(js ''message'', JStr (js ''a'')), (js ''type'', JStr (js ''t''))]])\<close>
  \<open>JSON_parse sample_builtins (js ''{"suggestions":[{"text":"b"}]}'')
     = Some (JObj [(js ''suggestions'', JArr [JObj [(js ''text'', JStr (js ''b''))]])])\<close>
  \<open>JSON_parse sample_builtins (js ''{"message":"c","type":"x"}'')
     = Some (JObj [(js ''message'', JStr (js ''c'')), (js ''type'', JStr (js ''x''))])\<close>
  \<open>JSON_parse sample_builtins (js ''{"unrelated":true}'')
     = Some (JObj [(js ''unrelated'', JBool True)])\<close>
  \<open>JSON_parse sample_builtins (js ''{}'') = Some (JObj [])\<close>
  \<open>JSON_parse sample_builtins (js ''null'') = Some JNull\<close>
  \<open>JSON_parse sample_builtins (js ''{"message":"","type":"x"}'')
     = Some (JObj [(js ''message'', JStr []), (js ''type'', JStr (js ''x''))])\<close>
  \<open>JSON_parse sample_builtins (js ''[{"message":"","text":"b","type":""}]'')
     = Some (JArr [JObj [(js ''message'', JStr []), (js ''text'', JStr (js ''b'')),
                         (js ''type'', JStr [])]])\<close>
  \<open>JSON_parse sample_builtins (js ''not json'') = None\<close>
  by (simp_all add: sample_builtins_def samples_def js_def)

lemma answers_simp: "answers data path body = Inr data"
  by (simp add: answers_def)

lemma rejects_simp: "rejects e path body = Inl e"
  by (simp add: rejects_def)

lemma js_key_distinct:
  "js ''message'' \<noteq> js ''text''" "js ''message'' \<noteq> js ''type''"
  "js ''message'' \<noteq> js ''suggestions''" "js ''text'' \<noteq> js ''message''"
  "js ''text'' \<noteq> js ''type''" "js ''text'' \<noteq> js ''suggestions''"
  "js ''type'' \<noteq> js ''message''" "js ''type'' \<noteq> js ''text''"
  "js ''type'' \<noteq> js ''suggestions''" "js ''suggestions'' \<noteq> js ''message''"
  "js ''suggestions'' \<noteq> js ''text''" "js ''suggestions'' \<noteq> js ''type''"
  "js ''unrelated'' \<noteq> js ''message''" "js ''unrelated'' \<noteq> js ''suggestions''"
  "js ''suggestions'' \<noteq> js ''unrelated''" "js ''message'' \<noteq> js ''unrelated''"
  by (simp_all add: js_def)

lemma js_nonempty:
  "js ''a'' \<noteq> []" "js ''b'' \<noteq> []" "js ''c'' \<noteq> []" "js ''t'' \<noteq> []" "js ''x'' \<noteq> []"
  by (simp_all add: js_def)

lemma userPrompt_of_plain: "userPrompt_of B (JStr title) (JArr []) (JStr []) = Inr (topic_label @ title)"
  using userPrompt_of_strings[of B title "[]" "[]"] by simp

lemma generate_plain:
  "generateAnxietySuggestions post B (JStr title) (JArr []) personality (JStr [])
   = ([(completions_path,
        request_body (systemPrompt_of (default_param personality (JStr (js ''green''))))
          (topic_label @ title))],
      (case post completions_path
              (request_body (systemPrompt_of (default_param personality (JStr (js ''green''))))
                 (topic_label @ title)) of
         Inl e \<Rightarrow> Inl (catch_handler e)
       | Inr data \<Rightarrow>
           (case after_response B (default_param personality (JStr (js ''green''))) data of
              Inl e \<Rightarrow> Inl (Error (js ''Failed to generate suggestions''))
            | Inr result \<Rightarrow> Inr result)))"
  by (rule generate_composed) (simp add: default_param_def userPrompt_of_plain)

lemma snd_generate_sample_parsed:
  assumes "JSON_parse B completion = Some v"
    and "ToString B (default_param personality (JStr (js ''green''))) = Inr printed"
  shows "snd (generateAnxietySuggestions (answers (completion_data (JStr completion) usage)) B
               (JStr title) (JArr []) personality (JStr []))
         = (case normalize v of
              Inl e \<Rightarrow> Inl (Error (js ''Failed to generate suggestions''))
            | Inr suggestions \<Rightarrow>
                Inr (success_result suggestions usage
                       (default_param personality (JStr (js ''green'')))))"
  unfolding generate_plain
  by (simp add: answers_simp
      after_response_parsed[OF read_content_completion_data assms]
      field_usage_completion_data split: sum.splits)

lemma snd_generate_sample_unparsed:
  assumes "JSON_parse B completion = None"
  shows "snd (generateAnxietySuggestions (answers (completion_data (JStr completion) usage)) B
               (JStr title) (JArr []) personality (JStr []))
         = Inl (Error (js ''Failed to generate suggestions''))"
proof -
  from after_response_unparsed[OF read_content_completion_data assms] obtain e where
    "after_response B (default_param personality (JStr (js ''green'')))
       (completion_data (JStr completion) usage) = Inl e"
    by blast
  then show ?thesis unfolding generate_plain by (simp add: answers_simp)
qed

lemma snd_generate_rejects:
  "snd (generateAnxietySuggestions (rejects e) B (JStr title) (JArr []) personality (JStr []))
   = Inl (catch_handler e)"
  unfolding generate_plain by (simp add: rejects_simp)

lemma ToString_green: "ToString B (default_param (JStr s) (JStr (js ''green''))) = Inr s"
  by (simp add: default_param_def)

lemma unrelated_completion_empty:
  \<open>snd (generateAnxietySuggestions
          (answers (completion_data (JStr (js ''{"unrelated":true}'')) JNull))
          sample_builtins (JStr (js ''exam'')) (JArr []) (JStr (js ''green'')) (JStr []))
     = Inr (success_result [] JNull (JStr (js ''green'')))\<close>
  by (simp add: snd_generate_sample_parsed[OF sample_parse_simps(4) ToString_green]
      normalize_def get_def js_key_distinct default_param_def)

lemma response_status_other:
  "\<forall>ps. r \<noteq> JObj ps \<Longrightarrow> response_status (AxiosError m r) = JUndefined"
  by (cases r) (simp_all add: response_status_def opt_chain_def)

lemma unprintable_personality_fails:
  "generateAnxietySuggestions (answers (completion_data (JStr (js ''{}'')) JNull))
     sample_builtins (JStr (js ''exam'')) (JArr []) (JObj [(js ''toString'', JNull)]) (JStr [])
   = ([(completions_path, request_body getGreenPersonalityPromptV2 (topic_label @ js ''exam''))],
      Inl (Error (js ''Failed to generate suggestions'')))"
  by (simp add: generate_plain answers_simp after_response_def read_content_completion_data
      default_param_def systemPrompt_of_def)

lemma entry_line_small:
  "entry_line (0, h) = js ''1. '' @ fst h @ type_label @ snd h @ js '')''"
  "entry_line (1, h) = js ''2. '' @ fst h @ type_label @ snd h @ js '')''"
  "entry_line (Suc 0, h) = js ''2. '' @ fst h @ type_label @ snd h @ js '')''"
  "entry_line (2, h) = js ''3. '' @ fst h @ type_label @ snd h @ js '')''"
  "entry_line (3, h) = js ''4. '' @ fst h @ type_label @ snd h @ js '')''"
  "entry_line (4, h) = js ''5. '' @ fst h @ type_label @ snd h @ js '')''"
  "entry_line (5, h) = js ''6. '' @ fst h @ type_label @ snd h @ js '')''"
  "entry_line (6, h) = js ''7. '' @ fst h @ type_label @ snd h @ js '')''"
  "entry_line (7, h) = js ''8. '' @ fst h @ type_label @ snd h @ js '')''"
  "entry_line (8, h) = js ''9. '' @ fst h @ type_label @ snd h @ js '')''"
  "entry_line (9, h) = js ''10. '' @ fst h @ type_label @ snd h @ js '')''"
  "entry_line (10, h) = js ''11. '' @ fst h @ type_label @ snd h @ js '')''"
  by (simp_all add: entry_line_def decimal.simps js_def)



lemma fst_generate_cases:
  "fst (generateAnxietySuggestions post B title historyContext personality titleContext)
   = (case userPrompt_of B title (default_param historyContext (JArr []))
             (default_param titleContext (JStr [])) of
        Inl e \<Rightarrow> []
      | Inr userPrompt \<Rightarrow>
          [(completions_path,
            request_body (systemPrompt_of (default_param personality (JStr (js ''green''))))
              userPrompt)])"
  by (cases "userPrompt_of B title (default_param historyContext (JArr []))
             (default_param titleContext (JStr []))")
    (simp_all add: generate_composition_fails generate_composed)

lemma js_suggestion_keys:
  "js ''suggestion_text'' \<noteq> js ''suggestion_type''"
  "js ''suggestion_type'' \<noteq> js ''suggestion_text''"
  "js ''suggestion_text'' \<noteq> js ''toString''" "js ''toString'' \<noteq> js ''suggestion_text''"
  by (simp_all add: js_def)

lemma js_keys:
  "js ''green'' \<noteq> js ''yellow''" "js ''green'' \<noteq> js ''red''" "js ''yellow'' \<noteq> js ''red''"
  by (simp_all add: js_def)

lemma green_nonempty: "getGreenPersonalityPromptV2 \<noteq> []"
  by (simp add: getGreenPersonalityPromptV2_def join_lines_def)

lemma yellow_nonempty: "getYellowPersonalityPromptV2 \<noteq> []"
  by (simp add: getYellowPersonalityPromptV2_def join_lines_def)

lemma red_nonempty: "getRedPersonalityPromptV2 \<noteq> []"
  by (simp add: getRedPersonalityPromptV2_def join_lines_def)

lemma green_yellow: "getGreenPersonalityPromptV2 \<noteq> getYellowPersonalityPromptV2"
proof
  assume "getGreenPersonalityPromptV2 = getYellowPersonalityPromptV2"
  then have "take 2 getGreenPersonalityPromptV2 = take 2 getYellowPersonalityPromptV2"
    by simp
  then show False
    by (simp add: getGreenPersonalityPromptV2_def getYellowPersonalityPromptV2_def join_lines_def)
qed

lemma green_red: "getGreenPersonalityPromptV2 \<noteq> getRedPersonalityPromptV2"
proof
  assume "getGreenPersonalityPromptV2 = getRedPersonalityPromptV2"
  then have "take 12 getGreenPersonalityPromptV2 = take 12 getRedPersonalityPromptV2"
    by simp
  then show False
    by (simp add: getGreenPersonalityPromptV2_def getRedPersonalityPromptV2_def join_lines_def)
qed

lemma yellow_red: "getYellowPersonalityPromptV2 \<noteq> getRedPersonalityPromptV2"
proof
  assume "getYellowPersonalityPromptV2 = getRedPersonalityPromptV2"
  then have "take 2 getYellowPersonalityPromptV2 = take 2 getRedPersonalityPromptV2"
    by simp
  then show False
    by (simp add: getYellowPersonalityPromptV2_def getRedPersonalityPromptV2_def join_lines_def)
qed

lemma field_success_result:
  "field (success_result s u p) (js ''success'') = JBool True"
  "field (success_result s u p) (js ''suggestions'') = JArr s"
  "field (success_result s u p) (js ''usage'') = u"
  "field (success_result s u p) (js ''personality'') = p"
  by (simp_all add: success_result_def js_def)

lemma after_response_Inr:
  "after_response B personality data = Inr result
   \<Longrightarrow> \<exists>suggestions usage. result = success_result suggestions usage personality"
  by (auto simp: after_response_def split: sum.splits)

lemma snd_generate_Inr:
  assumes "snd (generateAnxietySuggestions post B title historyContext personality titleContext)
           = Inr result"
  shows "\<exists>userPrompt suggestions usage.
           userPrompt_of B title (default_param historyContext (JArr []))
             (default_param titleContext (JStr [])) = Inr userPrompt
           \<and> result = success_result suggestions usage
                        (default_param personality (JStr (js ''green'')))"
proof (cases "userPrompt_of B title (default_param historyContext (JArr []))
             (default_param titleContext (JStr []))")
  case (Inl e)
  from generate_composition_fails[OF Inl] assms show ?thesis by simp
next
  case (Inr userPrompt)
  from assms show ?thesis
    unfolding generate_composed[OF Inr]
    by (auto simp: Inr split: sum.splits dest: after_response_Inr)
qed

section \<open>Claims\<close>

text \<open>
  C1, as amended.  Let the upstream answer the request with a completion text that parses
  to a value \<open>v\<close>, and let the personality be a value that the log lines 65 and 98
  can print (every string is one).  Apart from \<^verbatim>\<open>null\<close>, from arrays that hold
  \<^verbatim>\<open>null\<close> and from a \<open>suggestions\<close> array that holds \<^verbatim>\<open>null\<close>, the
  value is normalized by three shapes tried in this order, the first match winning.
  (1) \<open>v\<close> is an array: each element gives one suggestion whose text is its
  \<open>message\<close> field if truthy, else its \<open>text\<close> field if truthy, else the empty
  string, and whose type is its \<open>type\<close> field if truthy, else \<^verbatim>\<open>immediate\<close>
  (\<open>spec_suggestion\<close>).  (2) Else the \<open>suggestions\<close> field of \<open>v\<close> is an
  array: the same mapping over that array.  (3) Else \<open>v\<close> has a truthy \<open>message\<close>
  field: the one suggestion with that message as text and the \<open>type\<close> field if truthy,
  else \<^verbatim>\<open>immediate\<close>, as type.
\<close>

theorem normalization_shapes:
  assumes "fst (generateAnxietySuggestions post B title historyContext personality titleContext)
           = [(path, body)]"
    and "post path body = Inr data"
    and "read_content data = Inr (JStr completion)"
    and "JSON_parse B completion = Some v"
    and "ToString B (default_param personality (JStr (js ''green''))) = Inr printed"
  shows "(\<forall>items. v = JArr items \<and> (\<forall>x\<in>set items. \<not> nullish x)
           \<longrightarrow> snd (generateAnxietySuggestions post B title historyContext personality
                      titleContext)
                = Inr (success_result (map spec_suggestion items) (field data (js ''usage''))
                        (default_param personality (JStr (js ''green'')))))
       \<and> (\<forall>items. \<not> isArray v \<and> \<not> nullish v \<and> field v (js ''suggestions'') = JArr items
                  \<and> (\<forall>x\<in>set items. \<not> nullish x)
           \<longrightarrow> snd (generateAnxietySuggestions post B title historyContext personality
                      titleContext)
                = Inr (success_result (map spec_suggestion items) (field data (js ''usage''))
                        (default_param personality (JStr (js ''green'')))))
       \<and> (\<not> isArray v \<and> \<not> nullish v \<and> \<not> isArray (field v (js ''suggestions''))
             \<and> truthy (field v (js ''message''))
           \<longrightarrow> snd (generateAnxietySuggestions post B title historyContext personality
                      titleContext)
                = Inr (success_result
                        [JObj [(js ''text'', field v (js ''message'')),
                               (js ''type'',
                                  first_truthy [field v (js ''type'')] (JStr (js ''immediate'')))]]
                        (field data (js ''usage''))
                        (default_param personality (JStr (js ''green'')))))"
  unfolding snd_generate_answered[OF assms(1,2)] after_response_parsed[OF assms(3,4,5)]
  by (auto simp: normalize_array normalize_suggestions normalize_message)

text \<open>The three sample completions of the specification, one for each shape.\<close>

theorem normalization_shapes_witness:
  \<open>snd (generateAnxietySuggestions
          (answers (completion_data (JStr (js ''[{"message":"a","type":"t"}]'')) JNull))
          sample_builtins (JStr (js ''exam'')) (JArr []) (JStr (js ''green'')) (JStr []))
     = Inr (success_result [JObj [(js ''text'', JStr (js ''a'')), (js ''type'', JStr (js ''t''))]]
             JNull (JStr (js ''green'')))
   \<and> snd (generateAnxietySuggestions
          (answers (completion_data (JStr (js ''{"suggestions":[{"text":"b"}]}'')) JNull))
          sample_builtins (JStr (js ''exam'')) (JArr []) (JStr (js ''green'')) (JStr []))
     = Inr (success_result
             [JObj [(js ''text'', JStr (js ''b'')), (js ''type'', JStr (js ''immediate''))]]
             JNull (JStr (js ''green'')))
   \<and> snd (generateAnxietySuggestions
          (answers (completion_data (JStr (js ''{"message":"c","type":"x"}'')) JNull))
          sample_builtins (JStr (js ''exam'')) (JArr []) (JStr (js ''green'')) (JStr []))
     = Inr (success_result [JObj [(js ''text'', JStr (js ''c'')), (js ''type'', JStr (js ''x''))]]
             JNull (JStr (js ''green'')))\<close>
proof -
  let ?c1 = \<open>js ''[{"message":"a","type":"t"}]''\<close>
  let ?c2 = \<open>js ''{"suggestions":[{"text":"b"}]}''\<close>
  let ?c3 = \<open>js ''{"message":"c","type":"x"}''\<close>
  have f: "fst (generateAnxietySuggestions post sample_builtins (JStr (js ''exam'')) (JArr [])
                 (JStr (js ''green'')) (JStr []))
           = [(completions_path,
               request_body (systemPrompt_of (default_param (JStr (js ''green'')) (JStr (js ''green''))))
                 (topic_label @ js ''exam''))]" for post
    by (simp add: generate_plain)
  have 1: "snd (generateAnxietySuggestions (answers (completion_data (JStr ?c1) JNull))
                 sample_builtins (JStr (js ''exam'')) (JArr []) (JStr (js ''green'')) (JStr []))
           = Inr (success_result
                   [JObj [(js ''text'', JStr (js ''a'')), (js ''type'', JStr (js ''t''))]]
                   JNull (JStr (js ''green'')))"
    using normalization_shapes[where post = "answers (completion_data (JStr ?c1) JNull)"
        and data = "completion_data (JStr ?c1) JNull" and completion = ?c1 and B = sample_builtins
        and title = "JStr (js ''exam'')" and historyContext = "JArr []"
        and personality = "JStr (js ''green'')" and titleContext = "JStr []",
        OF f answers_simp read_content_completion_data sample_parse_simps(1) ToString_green]
    by (simp add: spec_suggestion_def js_key_distinct js_nonempty field_usage_completion_data
        default_param_def)
  have 2: "snd (generateAnxietySuggestions (answers (completion_data (JStr ?c2) JNull))
                 sample_builtins (JStr (js ''exam'')) (JArr []) (JStr (js ''green'')) (JStr []))
           = Inr (success_result
                   [JObj [(js ''text'', JStr (js ''b'')), (js ''type'', JStr (js ''immediate''))]]
                   JNull (JStr (js ''green'')))"
    using normalization_shapes[where post = "answers (completion_data (JStr ?c2) JNull)"
        and data = "completion_data (JStr ?c2) JNull" and completion = ?c2 and B = sample_builtins
        and title = "JStr (js ''exam'')" and historyContext = "JArr []"
        and personality = "JStr (js ''green'')" and titleContext = "JStr []",
        OF f answers_simp read_content_completion_data sample_parse_simps(2) ToString_green]
    by (simp add: spec_suggestion_def js_key_distinct js_nonempty field_usage_completion_data
        default_param_def)
  have 3: "snd (generateAnxietySuggestions (answers (completion_data (JStr ?c3) JNull))
                 sample_builtins (JStr (js ''exam'')) (JArr []) (JStr (js ''green'')) (JStr []))
           = Inr (success_result
                   [JObj [(js ''text'', JStr (js ''c'')), (js ''type'', JStr (js ''x''))]]
                   JNull (JStr (js ''green'')))"
    using normalization_shapes[where post = "answers (completion_data (JStr ?c3) JNull)"
        and data = "completion_data (JStr ?c3) JNull" and completion = ?c3 and B = sample_builtins
        and title = "JStr (js ''exam'')" and historyContext = "JArr []"
        and personality = "JStr (js ''green'')" and titleContext = "JStr []",
        OF f answers_simp read_content_completion_data sample_parse_simps(3) ToString_green]
    by (simp add: spec_suggestion_def js_key_distinct js_nonempty field_usage_completion_data
        default_param_def)
  from 1 2 3 show ?thesis by blast
qed

text \<open>
  C1 as stated fails where a field is present but falsy.  The completion
  \<^verbatim>\<open>{"message":"","type":"x"}\<close> is an object with a \<open>message\<close> field, and the
  result is the empty list, not the one suggestion with the text \<^verbatim>\<open>""\<close> and
  the type \<^verbatim>\<open>x\<close>.  The element of \<^verbatim>\<open>[{"message":"","text":"b","type":""}]\<close>
  has a \<open>message\<close> and a \<open>type\<close> field, and its suggestion takes the text from
  \<open>text\<close> and the type \<^verbatim>\<open>immediate\<close>.
\<close>

theorem normalization_counterexample:
  \<open>snd (generateAnxietySuggestions
          (answers (completion_data (JStr (js ''{"message":"","type":"x"}'')) JNull))
          sample_builtins (JStr (js ''exam'')) (JArr []) (JStr (js ''green'')) (JStr []))
     = Inr (success_result [] JNull (JStr (js ''green'')))
   \<and> snd (generateAnxietySuggestions
          (answers (completion_data (JStr (js ''[{"message":"","text":"b","type":""}]'')) JNull))
          sample_builtins (JStr (js ''exam'')) (JArr []) (JStr (js ''green'')) (JStr []))
     = Inr (success_result
             [JObj [(js ''text'', JStr (js ''b'')), (js ''type'', JStr (js ''immediate''))]]
             JNull (JStr (js ''green'')))
   \<and> snd (generateAnxietySuggestions
          (answers (completion_data (JStr (js ''{"message":"","type":"x"}'')) JNull))
          sample_builtins (JStr (js ''exam'')) (JArr []) (JStr (js ''green'')) (JStr []))
     \<noteq> Inr (success_result [JObj [(js ''text'', JStr []), (js ''type'', JStr (js ''x''))]]
             JNull (JStr (js ''green'')))
   \<and> snd (generateAnxietySuggestions
          (answers (completion_data (JStr (js ''[{"message":"","text":"b","type":""}]'')) JNull))
          sample_builtins (JStr (js ''exam'')) (JArr []) (JStr (js ''green'')) (JStr []))
     \<noteq> Inr (success_result [JObj [(js ''text'', JStr []), (js ''type'', JStr [])]]
             JNull (JStr (js ''green'')))\<close>
  by (simp add: snd_generate_sample_parsed[OF sample_parse_simps(7) ToString_green]
      snd_generate_sample_parsed[OF sample_parse_simps(8) ToString_green]
      normalize_def map_item_def get_def or_else_def js_key_distinct js_nonempty
      default_param_def success_result_def)

text \<open>
  C2.  A completion text that does not parse as JSON should make the operation fail with
  an error of its own kind.  For the completion \<^verbatim>\<open>not json\<close> line 73 throws
  \<^verbatim>\<open>Error('Failed to parse DeepSeek response')\<close>, but it throws inside the outer
  \<^verbatim>\<open>try\<close>: the handler of lines 107 to 119 replaces that error, and the caller
  receives \<^verbatim>\<open>Error('Failed to generate suggestions')\<close>, the very error it receives
  when the upstream times out.  No result is returned, partial or other; the failure is
  not told apart from an upstream failure by its kind, nor by its text.
\<close>

theorem parse_failure_indistinct:
  "snd (generateAnxietySuggestions (answers (completion_data (JStr (js ''not json'')) JNull))
         sample_builtins (JStr (js ''exam'')) (JArr []) (JStr (js ''green'')) (JStr []))
   = Inl (Error (js ''Failed to generate suggestions''))
   \<and> snd (generateAnxietySuggestions
           (rejects (AxiosError (js ''timeout of 30000ms exceeded'') JUndefined))
           sample_builtins (JStr (js ''exam'')) (JArr []) (JStr (js ''green'')) (JStr []))
   = Inl (Error (js ''Failed to generate suggestions''))
   \<and> parse_content sample_builtins (JStr (js ''not json''))
   = Inl (Error (js ''Failed to parse DeepSeek response''))
   \<and> Error (js ''Failed to parse DeepSeek response'')
     \<noteq> Error (js ''Failed to generate suggestions'')"
  by (simp add: snd_generate_sample_unparsed[OF sample_parse_simps(9)]
      snd_generate_rejects catch_handler_def response_status_simps
      parse_content_def sample_parse_simps(9))
    (simp add: js_def)

text \<open>
  C3.  A parsed value that matches none of the three shapes should give the empty list
  (\<open>normalize_unmatched\<close> shows that it does when the value is not
  \<^verbatim>\<open>null\<close>).  For the completion \<^verbatim>\<open>null\<close>, which parses and matches no
  shape, the read of \<^verbatim>\<open>parsedContent.suggestions\<close> at line 84 throws, and the
  operation fails.
\<close>

theorem null_completion_fails:
  "snd (generateAnxietySuggestions (answers (completion_data (JStr (js ''null'')) JNull))
         sample_builtins (JStr (js ''exam'')) (JArr []) (JStr (js ''green'')) (JStr []))
   = Inl (Error (js ''Failed to generate suggestions''))"
  by (simp add: snd_generate_sample_parsed[OF sample_parse_simps(6) ToString_green]
      normalize_def get_def)

text \<open>
  C4, as amended.  When the upstream rejects the request: a response whose status is the
  number 401 gives the error with the message "DeepSeek API authentication failed", a
  response whose status is the number 429 gives the error with the message "DeepSeek API
  rate limit exceeded", and every other rejection (a response with any other status or
  with none, or no response object at all: timeout, network error) gives the error with
  the message "Failed to generate suggestions".  The three messages are pairwise
  different.  Every error that leaves the operation is a plain \<^verbatim>\<open>Error\<close>: the
  three failures are of one class and are told apart by their message only.
\<close>

theorem upstream_failure_errors:
  assumes "fst (generateAnxietySuggestions post B title historyContext personality titleContext)
           = [(path, body)]"
  shows "(\<forall>m ps. post path body = Inl (AxiosError m (JObj ps))
                  \<and> map_of ps (js ''status'') = Some (JNum (Finite 401))
          \<longrightarrow> snd (generateAnxietySuggestions post B title historyContext personality
                     titleContext)
               = Inl (Error (js ''DeepSeek API authentication failed'')))
       \<and> (\<forall>m ps. post path body = Inl (AxiosError m (JObj ps))
                  \<and> map_of ps (js ''status'') = Some (JNum (Finite 429))
          \<longrightarrow> snd (generateAnxietySuggestions post B title historyContext personality
                     titleContext)
               = Inl (Error (js ''DeepSeek API rate limit exceeded'')))
       \<and> (\<forall>m ps s. post path body = Inl (AxiosError m (JObj ps))
                  \<and> map_of ps (js ''status'') = Some s
                  \<and> s \<noteq> JNum (Finite 401) \<and> s \<noteq> JNum (Finite 429)
          \<longrightarrow> snd (generateAnxietySuggestions post B title historyContext personality
                     titleContext)
               = Inl (Error (js ''Failed to generate suggestions'')))
       \<and> (\<forall>m ps. post path body = Inl (AxiosError m (JObj ps))
                  \<and> map_of ps (js ''status'') = None
          \<longrightarrow> snd (generateAnxietySuggestions post B title historyContext personality
                     titleContext)
               = Inl (Error (js ''Failed to generate suggestions'')))
       \<and> (\<forall>m r. post path body = Inl (AxiosError m r) \<and> (\<forall>ps. r \<noteq> JObj ps)
          \<longrightarrow> snd (generateAnxietySuggestions post B title historyContext personality
                     titleContext)
               = Inl (Error (js ''Failed to generate suggestions'')))
       \<and> js ''DeepSeek API authentication failed'' \<noteq> js ''DeepSeek API rate limit exceeded''
       \<and> js ''DeepSeek API authentication failed'' \<noteq> js ''Failed to generate suggestions''
       \<and> js ''DeepSeek API rate limit exceeded'' \<noteq> js ''Failed to generate suggestions''
       \<and> (\<forall>e. snd (generateAnxietySuggestions post B title historyContext personality
                     titleContext) = Inl e
          \<longrightarrow> class_of e = ErrorClass)"
proof -
  have r: "post path body = Inl e
           \<Longrightarrow> snd (generateAnxietySuggestions post B title historyContext personality
                     titleContext) = Inl (catch_handler e)" for e
    by (rule snd_generate_rejected[OF assms])
  have k: "\<forall>e. snd (generateAnxietySuggestions post B title historyContext personality
                     titleContext) = Inl e \<longrightarrow> class_of e = ErrorClass"
    using catch_handler_is_Error
    by (auto simp: generateAnxietySuggestions_def Let_def split: prod.splits sum.splits)
      (metis class_of.simps(1))
  have d: "js ''DeepSeek API authentication failed'' \<noteq> js ''DeepSeek API rate limit exceeded''"
    "js ''DeepSeek API authentication failed'' \<noteq> js ''Failed to generate suggestions''"
    "js ''DeepSeek API rate limit exceeded'' \<noteq> js ''Failed to generate suggestions''"
    by (simp_all add: js_def)
  show ?thesis
    using k d
    by (auto simp: r catch_handler_def response_status_simps response_status_other)
qed

text \<open>
  Rejections with the statuses 401, 429 and 503, whose response objects hold the status
  among other fields, and a timeout.
\<close>

theorem upstream_failure_errors_witness:
  "snd (generateAnxietySuggestions
         (rejects (rejection (js ''Request failed with status code 401'') (JNum (Finite 401))
                     (js ''Unauthorized'')))
         sample_builtins (JStr (js ''exam'')) (JArr []) (JStr (js ''green'')) (JStr []))
   = Inl (Error (js ''DeepSeek API authentication failed''))
   \<and> snd (generateAnxietySuggestions
         (rejects (rejection (js ''Request failed with status code 429'') (JNum (Finite 429))
                     (js ''Too Many Requests'')))
         sample_builtins (JStr (js ''exam'')) (JArr []) (JStr (js ''green'')) (JStr []))
   = Inl (Error (js ''DeepSeek API rate limit exceeded''))
   \<and> snd (generateAnxietySuggestions
         (rejects (rejection (js ''Request failed with status code 503'') (JNum (Finite 503))
                     (js ''Service Unavailable'')))
         sample_builtins (JStr (js ''exam'')) (JArr []) (JStr (js ''green'')) (JStr []))
   = Inl (Error (js ''Failed to generate suggestions''))
   \<and> snd (generateAnxietySuggestions
         (rejects (AxiosError (js ''timeout of 30000ms exceeded'') JUndefined))
         sample_builtins (JStr (js ''exam'')) (JArr []) (JStr (js ''green'')) (JStr []))
   = Inl (Error (js ''Failed to generate suggestions''))"
proof -
  have f: "fst (generateAnxietySuggestions post sample_builtins (JStr (js ''exam'')) (JArr [])
                 (JStr (js ''green'')) (JStr []))
           = [(completions_path,
               request_body (systemPrompt_of (default_param (JStr (js ''green'')) (JStr (js ''green''))))
                 (topic_label @ js ''exam''))]" for post
    by (simp add: generate_plain)
  have s: "js ''status'' \<noteq> js ''data''" "js ''statusText'' \<noteq> js ''status''"
    "js ''data'' \<noteq> js ''status''" "js ''status'' \<noteq> js ''statusText''"
    by (simp_all add: js_def)
  note t = upstream_failure_errors[where B = sample_builtins
      and title = "JStr (js ''exam'')" and historyContext = "JArr []"
      and personality = "JStr (js ''green'')" and titleContext = "JStr []", OF f]
  show ?thesis
    using t[where post = "rejects (rejection (js ''Request failed with status code 401'')
                             (JNum (Finite 401)) (js ''Unauthorized''))"]
      t[where post = "rejects (rejection (js ''Request failed with status code 429'')
                             (JNum (Finite 429)) (js ''Too Many Requests''))"]
      t[where post = "rejects (rejection (js ''Request failed with status code 503'')
                             (JNum (Finite 503)) (js ''Service Unavailable''))"]
      t[where post = "rejects (AxiosError (js ''timeout of 30000ms exceeded'') JUndefined)"]
    by (simp add: rejects_simp rejection_def s)
qed

text \<open>
  C4 as stated fails: the three failures are not of three kinds.  For a rejection with
  status 401, a rejection with status 429 and a timeout the error thrown is of the same
  class, \<^verbatim>\<open>Error\<close>, which has no field but its message.
\<close>

theorem upstream_failure_counterexample:
  "failure_class
     (snd (generateAnxietySuggestions
             (rejects (rejection (js ''Request failed with status code 401'') (JNum (Finite 401))
                         (js ''Unauthorized'')))
             sample_builtins (JStr (js ''exam'')) (JArr []) (JStr (js ''green'')) (JStr [])))
   = Some ErrorClass
   \<and> failure_class
     (snd (generateAnxietySuggestions
             (rejects (rejection (js ''Request failed with status code 429'') (JNum (Finite 429))
                         (js ''Too Many Requests'')))
             sample_builtins (JStr (js ''exam'')) (JArr []) (JStr (js ''green'')) (JStr [])))
   = Some ErrorClass
   \<and> failure_class
     (snd (generateAnxietySuggestions
             (rejects (AxiosError (js ''timeout of 30000ms exceeded'') JUndefined))
             sample_builtins (JStr (js ''exam'')) (JArr []) (JStr (js ''green'')) (JStr [])))
   = Some ErrorClass"
  by (simp add: snd_generate_rejects catch_handler_def)

text \<open>
  C5.  For each of the personalities green, yellow and red the selected system prompt is
  the template of that personality, a non-empty string different from the other two
  templates; for every other personality value (any string, any value that is not a
  string) the selection does not fail and yields exactly the green template.
\<close>

theorem systemPrompt_of_templates:
  "systemPrompt_of (JStr (js ''green'')) = getGreenPersonalityPromptV2
   \<and> systemPrompt_of (JStr (js ''yellow'')) = getYellowPersonalityPromptV2
   \<and> systemPrompt_of (JStr (js ''red'')) = getRedPersonalityPromptV2
   \<and> getGreenPersonalityPromptV2 \<noteq> []
   \<and> getYellowPersonalityPromptV2 \<noteq> []
   \<and> getRedPersonalityPromptV2 \<noteq> []
   \<and> getGreenPersonalityPromptV2 \<noteq> getYellowPersonalityPromptV2
   \<and> getGreenPersonalityPromptV2 \<noteq> getRedPersonalityPromptV2
   \<and> getYellowPersonalityPromptV2 \<noteq> getRedPersonalityPromptV2
   \<and> (\<forall>personality.
         personality \<notin> {JStr (js ''green''), JStr (js ''yellow''), JStr (js ''red'')}
         \<longrightarrow> systemPrompt_of personality = getGreenPersonalityPromptV2)"
  using green_nonempty yellow_nonempty red_nonempty green_yellow green_red yellow_red
  by (simp add: systemPrompt_of_def js_keys js_keys[symmetric])

text \<open>The string \<^verbatim>\<open>blue\<close> and the number 7.\<close>

theorem systemPrompt_of_templates_witness:
  "JStr (js ''blue'') \<notin> {JStr (js ''green''), JStr (js ''yellow''), JStr (js ''red'')}
   \<and> systemPrompt_of (JStr (js ''blue'')) = getGreenPersonalityPromptV2
   \<and> JNum (Finite 7) \<notin> {JStr (js ''green''), JStr (js ''yellow''), JStr (js ''red'')}
   \<and> systemPrompt_of (JNum (Finite 7)) = getGreenPersonalityPromptV2"
proof -
  have a: "JStr (js ''blue'') \<notin> {JStr (js ''green''), JStr (js ''yellow''), JStr (js ''red'')}"
    by (simp add: js_def)
  have b: "JNum (Finite 7) \<notin> {JStr (js ''green''), JStr (js ''yellow''), JStr (js ''red'')}"
    by simp
  from systemPrompt_of_templates have
    "\<forall>personality.
         personality \<notin> {JStr (js ''green''), JStr (js ''yellow''), JStr (js ''red'')}
         \<longrightarrow> systemPrompt_of personality = getGreenPersonalityPromptV2"
    by blast
  with a b show ?thesis by blast
qed





text \<open>
  C8, as amended.  A call of generateAnxietySuggestions issues at most one request.  When
  the user prompt composes (lines 35 to 45), the call issues exactly one request, whatever
  the upstream answers: a POST to /chat/completions whose body holds the model, exactly
  two messages (the system message with the selected template, the user message with the
  composed prompt), the temperature 2, the max_tokens budget 1500 and the response format
  json_object, and nothing else.  The prompt composes for every string title, string
  context and history of entries with string fields.  When composing the prompt throws,
  the call issues no request and fails with the error "Failed to generate suggestions".
  The call consults the client nowhere else: two clients that give the same answer to the
  request that was issued give the same outcome of the call.
\<close>

theorem one_request_per_call:
  "length (fst (generateAnxietySuggestions post B title historyContext personality titleContext))
     \<le> 1
   \<and> (\<forall>userPrompt.
        userPrompt_of B title (default_param historyContext (JArr []))
          (default_param titleContext (JStr [])) = Inr userPrompt
        \<longrightarrow> fst (generateAnxietySuggestions post B title historyContext personality titleContext)
            = [(js ''/chat/completions'',
                JObj [(js ''model'', JStr (js ''deepseek-chat'')),
                      (js ''messages'',
                         JArr [JObj [(js ''role'', JStr (js ''system'')),
                                     (js ''content'',
                                        JStr (systemPrompt_of
                                                (default_param personality
                                                   (JStr (js ''green'')))))],
                               JObj [(js ''role'', JStr (js ''user'')),
                                     (js ''content'', JStr userPrompt)]]),
                      (js ''temperature'', JNum (Finite 2)),
                      (js ''max_tokens'', JNum (Finite 1500)),
                      (js ''response_format'', JObj [(js ''type'', JStr (js ''json_object''))])])])
   \<and> (\<forall>e.
        userPrompt_of B title (default_param historyContext (JArr []))
          (default_param titleContext (JStr [])) = Inl e
        \<longrightarrow> generateAnxietySuggestions post B title historyContext personality titleContext
            = ([], Inl (Error (js ''Failed to generate suggestions''))))
   \<and> (\<forall>t c hs.
        title = JStr t \<and> titleContext = JStr c \<and> historyContext = JArr (map history_entry hs)
        \<longrightarrow> length (fst (generateAnxietySuggestions post B title historyContext personality
                           titleContext)) = 1)
   \<and> (\<forall>path body post'.
        fst (generateAnxietySuggestions post B title historyContext personality titleContext)
          = [(path, body)]
        \<and> post' path body = post path body
        \<longrightarrow> generateAnxietySuggestions post' B title historyContext personality titleContext
            = generateAnxietySuggestions post B title historyContext personality titleContext)"
proof (intro conjI allI impI)
  show "length (fst (generateAnxietySuggestions post B title historyContext personality
                       titleContext)) \<le> 1"
    by (simp add: fst_generate_cases split: sum.splits)
next
  fix userPrompt
  assume "userPrompt_of B title (default_param historyContext (JArr []))
            (default_param titleContext (JStr [])) = Inr userPrompt"
  then show "fst (generateAnxietySuggestions post B title historyContext personality titleContext)
            = [(js ''/chat/completions'',
                JObj [(js ''model'', JStr (js ''deepseek-chat'')),
                      (js ''messages'',
                         JArr [JObj [(js ''role'', JStr (js ''system'')),
                                     (js ''content'',
                                        JStr (systemPrompt_of
                                                (default_param personality
                                                   (JStr (js ''green'')))))],
                               JObj [(js ''role'', JStr (js ''user'')),
                                     (js ''content'', JStr userPrompt)]]),
                      (js ''temperature'', JNum (Finite 2)),
                      (js ''max_tokens'', JNum (Finite 1500)),
                      (js ''response_format'', JObj [(js ''type'', JStr (js ''json_object''))])])]"
    by (simp add: fst_generate_cases completions_path_def request_body_def)
next
  fix e
  assume "userPrompt_of B title (default_param historyContext (JArr []))
            (default_param titleContext (JStr [])) = Inl e"
  then show "generateAnxietySuggestions post B title historyContext personality titleContext
            = ([], Inl (Error (js ''Failed to generate suggestions'')))"
    by (rule generate_composition_fails)
next
  fix t c hs
  assume "title = JStr t \<and> titleContext = JStr c \<and> historyContext = JArr (map history_entry hs)"
  then show "length (fst (generateAnxietySuggestions post B title historyContext personality
                           titleContext)) = 1"
    by (simp add: fst_generate_cases default_param_def userPrompt_of_strings)
next
  fix path body post'
  assume a: "fst (generateAnxietySuggestions post B title historyContext personality
                    titleContext) = [(path, body)]
             \<and> post' path body = post path body"
  from request_of_generate[OF conjunct1[OF a]] obtain userPrompt where
    u: "userPrompt_of B title (default_param historyContext (JArr []))
          (default_param titleContext (JStr [])) = Inr userPrompt"
    and p: "path = completions_path"
    and b: "body = request_body
                     (systemPrompt_of (default_param personality (JStr (js ''green''))))
                     userPrompt"
    by blast
  from a have "post' path body = post path body" by blast
  then show "generateAnxietySuggestions post' B title historyContext personality titleContext
            = generateAnxietySuggestions post B title historyContext personality titleContext"
    unfolding generate_composed[OF u] p b by simp
qed

text \<open>
  A call with a history of one entry, a context and the personality red, which the
  upstream answers; and a call with the title alone, which the upstream lets time out.
\<close>

theorem one_request_per_call_witness:
  "fst (generateAnxietySuggestions
          (answers (completion_data (JStr (js ''{}'')) JNull)) sample_builtins
          (JStr (js ''exam'')) (JArr (map history_entry [(js ''walk'', js ''immediate'')]))
          (JStr (js ''red'')) (JStr (js '' math '')))
   = [(js ''/chat/completions'',
       JObj [(js ''model'', JStr (js ''deepseek-chat'')),
             (js ''messages'',
                JArr [JObj [(js ''role'', JStr (js ''system'')),
                            (js ''content'', JStr getRedPersonalityPromptV2)],
                      JObj [(js ''role'', JStr (js ''user'')),
                            (js ''content'',
                               JStr (topic_label @ js ''exam'' @ context_label @ js ''math''
                                     @ history_header @ js ''1. walk'' @ type_label
                                     @ js ''immediate)'' @ dedup_instruction))]]),
             (js ''temperature'', JNum (Finite 2)),
             (js ''max_tokens'', JNum (Finite 1500)),
             (js ''response_format'', JObj [(js ''type'', JStr (js ''json_object''))])])]
   \<and> fst (generateAnxietySuggestions
          (rejects (AxiosError (js ''timeout of 30000ms exceeded'') JUndefined)) sample_builtins
          (JStr (js ''exam'')) JUndefined JUndefined JUndefined)
   = [(js ''/chat/completions'',
       JObj [(js ''model'', JStr (js ''deepseek-chat'')),
             (js ''messages'',
                JArr [JObj [(js ''role'', JStr (js ''system'')),
                            (js ''content'', JStr getGreenPersonalityPromptV2)],
                      JObj [(js ''role'', JStr (js ''user'')),
                            (js ''content'', JStr (topic_label @ js ''exam''))]]),
             (js ''temperature'', JNum (Finite 2)),
             (js ''max_tokens'', JNum (Finite 1500)),
             (js ''response_format'', JObj [(js ''type'', JStr (js ''json_object''))])])]"
proof -
  have t: "trim (js '' math '') = js ''math''"
    by (simp add: trim_def js_def is_whitespace_def)
  have n: "\<not> (\<forall>c\<in>set (js '' math ''). is_whitespace c)"
    by (simp add: js_def is_whitespace_def)
  from n have f: "(\<forall>c\<in>set (js '' math ''). is_whitespace c) = False" by blast
  have d: "default_param (JArr xs) y = JArr xs" "default_param (JStr s) y = JStr s"
    for xs s y
    by (simp_all add: default_param_def)
  have 1: "userPrompt_of sample_builtins (JStr (js ''exam''))
             (default_param (JArr (map history_entry [(js ''walk'', js ''immediate'')])) (JArr []))
             (default_param (JStr (js '' math '')) (JStr []))
           = Inr (topic_label @ js ''exam'' @ context_label @ js ''math''
                  @ history_header @ js ''1. walk'' @ type_label
                  @ js ''immediate)'' @ dedup_instruction)"
    unfolding d userPrompt_of_strings f t
    by (simp add: entry_line_small) (simp add: js_def)
  have 2: "userPrompt_of sample_builtins (JStr (js ''exam''))
             (default_param JUndefined (JArr [])) (default_param JUndefined (JStr []))
           = Inr (topic_label @ js ''exam'')"
    by (simp add: default_param_def userPrompt_of_plain)
  have r: "systemPrompt_of (default_param (JStr (js ''red'')) (JStr (js ''green'')))
           = getRedPersonalityPromptV2"
    by (simp add: systemPrompt_of_def default_param_def js_def)
  have g: "systemPrompt_of (default_param JUndefined (JStr (js ''green'')))
           = getGreenPersonalityPromptV2"
    by (simp add: systemPrompt_of_def default_param_def js_def)
  from one_request_per_call[of "answers (completion_data (JStr (js ''{}'')) JNull)"
      sample_builtins "JStr (js ''exam'')"
      "JArr (map history_entry [(js ''walk'', js ''immediate'')])" "JStr (js ''red'')"
      "JStr (js '' math '')"] 1
  have a: "fst (generateAnxietySuggestions
          (answers (completion_data (JStr (js ''{}'')) JNull)) sample_builtins
          (JStr (js ''exam'')) (JArr (map history_entry [(js ''walk'', js ''immediate'')]))
          (JStr (js ''red'')) (JStr (js '' math '')))
   = [(js ''/chat/completions'',
       JObj [(js ''model'', JStr (js ''deepseek-chat'')),
             (js ''messages'',
                JArr [JObj [(js ''role'', JStr (js ''system'')),
                            (js ''content'', JStr getRedPersonalityPromptV2)],
                      JObj [(js ''role'', JStr (js ''user'')),
                            (js ''content'',
                               JStr (topic_label @ js ''exam'' @ context_label @ js ''math''
                                     @ history_header @ js ''1. walk'' @ type_label
                                     @ js ''immediate)'' @ dedup_instruction))]]),
             (js ''temperature'', JNum (Finite 2)),
             (js ''max_tokens'', JNum (Finite 1500)),
             (js ''response_format'', JObj [(js ''type'', JStr (js ''json_object''))])])]"
    unfolding r by blast
  from one_request_per_call[of
      "rejects (AxiosError (js ''timeout of 30000ms exceeded'') JUndefined)"
      sample_builtins "JStr (js ''exam'')" JUndefined JUndefined JUndefined] 2
  have b: "fst (generateAnxietySuggestions
          (rejects (AxiosError (js ''timeout of 30000ms exceeded'') JUndefined)) sample_builtins
          (JStr (js ''exam'')) JUndefined JUndefined JUndefined)
   = [(js ''/chat/completions'',
       JObj [(js ''model'', JStr (js ''deepseek-chat'')),
             (js ''messages'',
                JArr [JObj [(js ''role'', JStr (js ''system'')),
                            (js ''content'', JStr getGreenPersonalityPromptV2)],
                      JObj [(js ''role'', JStr (js ''user'')),
                            (js ''content'', JStr (topic_label @ js ''exam''))]]),
             (js ''temperature'', JNum (Finite 2)),
             (js ''max_tokens'', JNum (Finite 1500)),
             (js ''response_format'', JObj [(js ''type'', JStr (js ''json_object''))])])]"
    unfolding g by blast
  from a b show ?thesis by blast
qed

text \<open>
  C8 as stated fails: not every call issues a request.  With the history \<^verbatim>\<open>null\<close>
  (the default of the parameter applies to \<^verbatim>\<open>undefined\<close> only) the read of
  \<^verbatim>\<open>historyContext.length\<close> at line 40 throws; with a history entry whose
  \<open>suggestion_text\<close> is the object \<^verbatim>\<open>{"toString": null}\<close> the template literal
  of line 42 throws.  Both calls fail before line 47: no request is issued.
\<close>

theorem one_request_counterexample:
  "generateAnxietySuggestions (answers (completion_data (JStr (js ''{}'')) JNull))
     sample_builtins (JStr (js ''exam'')) JNull (JStr (js ''green'')) (JStr [])
   = ([], Inl (Error (js ''Failed to generate suggestions'')))
   \<and> generateAnxietySuggestions (answers (completion_data (JStr (js ''{}'')) JNull))
       sample_builtins (JStr (js ''exam''))
       (JArr [JObj [(js ''suggestion_text'', JObj [(js ''toString'', JNull)]),
                    (js ''suggestion_type'', JStr (js ''immediate''))]])
       (JStr (js ''green'')) (JStr [])
     = ([], Inl (Error (js ''Failed to generate suggestions'')))"
proof -
  have 1: "userPrompt_of sample_builtins (JStr (js ''exam'')) (default_param JNull (JArr []))
             (default_param (JStr []) (JStr []))
           = Inl (TypeError (cannot_read JNull (js ''length'')))"
    by (simp add: userPrompt_of_def default_param_def)
  have 2: "userPrompt_of sample_builtins (JStr (js ''exam''))
             (default_param
                (JArr [JObj [(js ''suggestion_text'', JObj [(js ''toString'', JNull)]),
                             (js ''suggestion_type'', JStr (js ''immediate''))]])
                (JArr []))
             (default_param (JStr []) (JStr []))
           = Inl (TypeError (js ''Cannot convert object to primitive value''))"
    by (simp add: userPrompt_of_def default_param_def history_listing_def history_line_def
        get_def js_suggestion_keys)
  show ?thesis
    by (simp add: generate_composition_fails[OF 1] generate_composition_fails[OF 2])
qed

text \<open>
  C9, as amended.  checkHealth issues its one probe and returns a result in every case: it
  never throws.  When the upstream answers with a body that is an object, the result is
  marked healthy and carries the \<open>model\<close> field of the body, \<^verbatim>\<open>undefined\<close>
  when the body has none; for a body that is a string, a number, a boolean or an array
  the result is marked healthy with the model \<^verbatim>\<open>undefined\<close>.  When the upstream
  rejects the request, the result is marked unhealthy and carries the message of the
  rejection, whatever it is, as its error string.  When the upstream answers with the body
  \<^verbatim>\<open>null\<close> (or without a body), the read at line 701 throws, and the result is
  marked unhealthy with the message of that TypeError as its error string.
\<close>

theorem checkHealth_result:
  "fst (checkHealth post)
   = [(js ''/chat/completions'',
       JObj [(js ''model'', JStr (js ''deepseek-chat'')),
             (js ''messages'',
                JArr [JObj [(js ''role'', JStr (js ''user'')),
                            (js ''content'', JStr (js ''Hello''))]]),
             (js ''max_tokens'', JNum (Finite 10))])]
   \<and> (\<exists>result. snd (checkHealth post) = Inr result)
   \<and> (\<forall>ps. post (js ''/chat/completions'') health_body = Inr (JObj ps)
        \<longrightarrow> snd (checkHealth post)
            = Inr (JObj [(js ''success'', JBool True), (js ''status'', JStr (js ''healthy'')),
                         (js ''model'',
                            (case map_of ps (js ''model'') of
                               Some model \<Rightarrow> model | None \<Rightarrow> JUndefined))]))
   \<and> (\<forall>data. post (js ''/chat/completions'') health_body = Inr data
            \<and> data \<noteq> JNull \<and> data \<noteq> JUndefined \<and> (\<forall>ps. data \<noteq> JObj ps)
        \<longrightarrow> snd (checkHealth post)
            = Inr (JObj [(js ''success'', JBool True), (js ''status'', JStr (js ''healthy'')),
                         (js ''model'', JUndefined)]))
   \<and> (\<forall>error message response.
        post (js ''/chat/completions'') health_body = Inl error
        \<and> error \<in> {AxiosError message response, Error message, TypeError message}
        \<longrightarrow> snd (checkHealth post)
            = Inr (JObj [(js ''success'', JBool False), (js ''status'', JStr (js ''unhealthy'')),
                         (js ''error'', JStr message)]))
   \<and> (post (js ''/chat/completions'') health_body = Inr JNull
        \<longrightarrow> snd (checkHealth post)
            = Inr (JObj [(js ''success'', JBool False), (js ''status'', JStr (js ''unhealthy'')),
                         (js ''error'',
                            JStr (js ''Cannot read properties of null (reading ''
                                  @ [0x27] @ js ''model'' @ [0x27] @ js '')''))]))
   \<and> (post (js ''/chat/completions'') health_body = Inr JUndefined
        \<longrightarrow> snd (checkHealth post)
            = Inr (JObj [(js ''success'', JBool False), (js ''status'', JStr (js ''unhealthy'')),
                         (js ''error'',
                            JStr (js ''Cannot read properties of undefined (reading ''
                                  @ [0x27] @ js ''model'' @ [0x27] @ js '')''))]))"
proof (intro conjI allI impI)
  show "fst (checkHealth post)
   = [(js ''/chat/completions'',
       JObj [(js ''model'', JStr (js ''deepseek-chat'')),
             (js ''messages'',
                JArr [JObj [(js ''role'', JStr (js ''user'')),
                            (js ''content'', JStr (js ''Hello''))]]),
             (js ''max_tokens'', JNum (Finite 10))])]"
    by (simp add: checkHealth_def health_try_def send_def completions_path_def health_body_def
        split: sum.splits)
next
  show "\<exists>result. snd (checkHealth post) = Inr result"
    by (simp add: checkHealth_def health_try_def send_def split: sum.splits)
next
  fix ps
  assume "post (js ''/chat/completions'') health_body = Inr (JObj ps)"
  then show "snd (checkHealth post)
            = Inr (JObj [(js ''success'', JBool True), (js ''status'', JStr (js ''healthy'')),
                         (js ''model'',
                            (case map_of ps (js ''model'') of
                               Some model \<Rightarrow> model | None \<Rightarrow> JUndefined))])"
    by (simp add: checkHealth_def health_try_def send_def completions_path_def get_def)
next
  fix data
  assume "post (js ''/chat/completions'') health_body = Inr data
            \<and> data \<noteq> JNull \<and> data \<noteq> JUndefined \<and> (\<forall>ps. data \<noteq> JObj ps)"
  then show "snd (checkHealth post)
            = Inr (JObj [(js ''success'', JBool True), (js ''status'', JStr (js ''healthy'')),
                         (js ''model'', JUndefined)])"
    by (cases data)
      (simp_all add: checkHealth_def health_try_def send_def completions_path_def get_def)
next
  fix error message response
  assume "post (js ''/chat/completions'') health_body = Inl error
        \<and> error \<in> {AxiosError message response, Error message, TypeError message}"
  then show "snd (checkHealth post)
            = Inr (JObj [(js ''success'', JBool False), (js ''status'', JStr (js ''unhealthy'')),
                         (js ''error'', JStr message)])"
    by (auto simp: checkHealth_def health_try_def send_def completions_path_def unhealthy_def)
next
  assume "post (js ''/chat/completions'') health_body = Inr JNull"
  then show "snd (checkHealth post)
            = Inr (JObj [(js ''success'', JBool False), (js ''status'', JStr (js ''unhealthy'')),
                         (js ''error'',
                            JStr (js ''Cannot read properties of null (reading ''
                                  @ [0x27] @ js ''model'' @ [0x27] @ js '')''))])"
    by (simp add: checkHealth_def health_try_def send_def completions_path_def get_def
        unhealthy_def cannot_read_def js_def)
next
  assume "post (js ''/chat/completions'') health_body = Inr JUndefined"
  then show "snd (checkHealth post)
            = Inr (JObj [(js ''success'', JBool False), (js ''status'', JStr (js ''unhealthy'')),
                         (js ''error'',
                            JStr (js ''Cannot read properties of undefined (reading ''
                                  @ [0x27] @ js ''model'' @ [0x27] @ js '')''))])"
    by (simp add: checkHealth_def health_try_def send_def completions_path_def get_def
        unhealthy_def cannot_read_def js_def)
qed

text \<open>
  An answer with a model among other fields, an answer that is a string, a network error,
  a rejection with status 401, and the answer \<^verbatim>\<open>null\<close>.
\<close>

theorem checkHealth_result_witness:
  "snd (checkHealth
          (answers (JObj [(js ''id'', JStr (js ''c1'')),
                          (js ''model'', JStr (js ''deepseek-chat'')),
                          (js ''choices'', JArr [])])))
   = Inr (JObj [(js ''success'', JBool True), (js ''status'', JStr (js ''healthy'')),
                (js ''model'', JStr (js ''deepseek-chat''))])
   \<and> snd (checkHealth (answers (JStr (js ''ok''))))
   = Inr (JObj [(js ''success'', JBool True), (js ''status'', JStr (js ''healthy'')),
                (js ''model'', JUndefined)])
   \<and> snd (checkHealth (rejects (AxiosError (js ''Network Error'') JUndefined)))
   = Inr (JObj [(js ''success'', JBool False), (js ''status'', JStr (js ''unhealthy'')),
                (js ''error'', JStr (js ''Network Error''))])
   \<and> snd (checkHealth
            (rejects (rejection (js ''Request failed with status code 401'')
                        (JNum (Finite 401)) (js ''Unauthorized''))))
   = Inr (JObj [(js ''success'', JBool False), (js ''status'', JStr (js ''unhealthy'')),
                (js ''error'', JStr (js ''Request failed with status code 401''))])
   \<and> snd (checkHealth (answers JNull))
   = Inr (JObj [(js ''success'', JBool False), (js ''status'', JStr (js ''unhealthy'')),
                (js ''error'',
                   JStr (js ''Cannot read properties of null (reading ''
                         @ [0x27] @ js ''model'' @ [0x27] @ js '')''))])"
proof -
  have k: "js ''model'' \<noteq> js ''id''" by (simp add: js_def)
  show ?thesis
    using checkHealth_result[of "answers (JObj [(js ''id'', JStr (js ''c1'')),
                          (js ''model'', JStr (js ''deepseek-chat'')),
                          (js ''choices'', JArr [])])"]
      checkHealth_result[of "answers (JStr (js ''ok''))"]
      checkHealth_result[of "rejects (AxiosError (js ''Network Error'') JUndefined)"]
      checkHealth_result[of "rejects (rejection (js ''Request failed with status code 401'')
                        (JNum (Finite 401)) (js ''Unauthorized''))"]
      checkHealth_result[of "answers JNull"]
    by (simp add: answers_simp rejects_simp rejection_def k)
qed

text \<open>
  C9 as stated fails.  The upstream call succeeds with the body \<^verbatim>\<open>null\<close>, and the
  result is marked unhealthy.  The upstream call succeeds with a body that has no
  \<open>model\<close> field, and the healthy result carries \<^verbatim>\<open>undefined\<close>, not a model
  string.  The error string is the message of the rejection as it is: for a rejection with
  the empty message it is the empty string.
\<close>

theorem checkHealth_counterexample:
  "snd (checkHealth (answers JNull))
   = Inr (JObj [(js ''success'', JBool False), (js ''status'', JStr (js ''unhealthy'')),
                (js ''error'',
                   JStr (js ''Cannot read properties of null (reading ''
                         @ [0x27] @ js ''model'' @ [0x27] @ js '')''))])
   \<and> snd (checkHealth (answers (JObj [(js ''id'', JStr (js ''c1''))])))
   = Inr (JObj [(js ''success'', JBool True), (js ''status'', JStr (js ''healthy'')),
                (js ''model'', JUndefined)])
   \<and> snd (checkHealth (rejects (AxiosError [] JUndefined)))
   = Inr (JObj [(js ''success'', JBool False), (js ''status'', JStr (js ''unhealthy'')),
                (js ''error'', JStr [])])"
proof -
  have k: "js ''model'' \<noteq> js ''id''" by (simp add: js_def)
  show ?thesis
    by (simp add: checkHealth_def health_try_def send_def answers_simp rejects_simp get_def
        unhealthy_def cannot_read_def k)
      (simp add: js_def)
qed

text \<open>
  C10.  When generateAnxietySuggestions succeeds, the \<open>personality\<close> field of its
  result is the personality argument the caller supplied, unchanged.  In particular a
  value that is none of green, yellow and red selects the green template for the request
  and is still returned as it was given.
\<close>

theorem personality_echoed:
  assumes "snd (generateAnxietySuggestions post B title historyContext personality titleContext)
           = Inr result"
    and "personality \<noteq> JUndefined"
  shows "field result (js ''personality'') = personality
         \<and> (personality \<notin> {JStr (js ''green''), JStr (js ''yellow''), JStr (js ''red'')}
            \<longrightarrow> (\<exists>userPrompt.
                   userPrompt_of B title (default_param historyContext (JArr []))
                     (default_param titleContext (JStr [])) = Inr userPrompt
                   \<and> fst (generateAnxietySuggestions post B title historyContext personality
                            titleContext)
                     = [(completions_path,
                         request_body getGreenPersonalityPromptV2 userPrompt)]))"
proof -
  from snd_generate_Inr[OF assms(1)] obtain userPrompt s u where
    p: "userPrompt_of B title (default_param historyContext (JArr []))
             (default_param titleContext (JStr [])) = Inr userPrompt"
    and r: "result = success_result s u (default_param personality (JStr (js ''green'')))"
    by blast
  from r have "field result (js ''personality'') = default_param personality (JStr (js ''green''))"
    by (simp only: field_success_result)
  with assms(2) p show ?thesis
    by (simp add: default_param_def generate_composed[OF p] systemPrompt_of_def)
qed

text \<open>The personality \<^verbatim>\<open>blue\<close>.\<close>

theorem personality_echoed_witness:
  "snd (generateAnxietySuggestions (answers (completion_data (JStr (js ''{}'')) JNull))
         sample_builtins (JStr (js ''exam'')) (JArr []) (JStr (js ''blue'')) (JStr []))
   = Inr (success_result [] JNull (JStr (js ''blue'')))
   \<and> JStr (js ''blue'') \<noteq> JUndefined
   \<and> JStr (js ''blue'') \<notin> {JStr (js ''green''), JStr (js ''yellow''), JStr (js ''red'')}
   \<and> field (success_result [] JNull (JStr (js ''blue''))) (js ''personality'') = JStr (js ''blue'')
   \<and> fst (generateAnxietySuggestions (answers (completion_data (JStr (js ''{}'')) JNull))
           sample_builtins (JStr (js ''exam'')) (JArr []) (JStr (js ''blue'')) (JStr []))
     = [(completions_path,
         request_body getGreenPersonalityPromptV2 (topic_label @ js ''exam''))]"
proof -
  have r: "snd (generateAnxietySuggestions (answers (completion_data (JStr (js ''{}'')) JNull))
            sample_builtins (JStr (js ''exam'')) (JArr []) (JStr (js ''blue'')) (JStr []))
          = Inr (success_result [] JNull (JStr (js ''blue'')))"
    by (simp add: snd_generate_sample_parsed[OF sample_parse_simps(5) ToString_green]
        normalize_def get_def default_param_def)
  have b: "JStr (js ''blue'') \<notin> {JStr (js ''green''), JStr (js ''yellow''), JStr (js ''red'')}"
    by (simp add: js_def)
  have p: "userPrompt_of sample_builtins (JStr (js ''exam'')) (default_param (JArr []) (JArr []))
             (default_param (JStr []) (JStr [])) = Inr (topic_label @ js ''exam'')"
    by (simp add: default_param_def userPrompt_of_plain)
  from personality_echoed[OF r] b r p show ?thesis by simp
qed

end
